theory Spec2Isabelle
  imports Complex_Main "HOL-Library.Word"
begin

unbundle bit_operations_syntax

section \<open>Data model of TinyReflowController.cpp\<close>

text \<open>
  The firmware is built with \<open>VERSION == 2\<close> (ATmega328P): \<open>unsigned long\<close> and \<open>long\<close>
  are 32 bits wide, \<open>unsigned int\<close> is 16 bits, \<open>unsigned char\<close> is 8 bits. Unsigned
  arithmetic wraps, so these are words. The three \<open>double\<close> globals (\<open>setpoint\<close>,
  \<open>input\<close>, \<open>output\<close>) are modelled as reals: the program only assigns them, adds the
  constant 5 to \<open>setpoint\<close> and compares them with integer constants and with the
  elapsed window time. \<open>output\<close> is a reserved word of the prover and is written
  \<open>output_pid\<close>; \<open>setup()\<close> is written \<open>setup_state\<close> for the same reason.
\<close>

type_synonym u8 = "8 word"
type_synonym u16 = "16 word"
type_synonym u32 = "32 word"

datatype reflowState_t =
    REFLOW_STATE_IDLE
  | REFLOW_STATE_PREHEAT
  | REFLOW_STATE_SOAK
  | REFLOW_STATE_REFLOW
  | REFLOW_STATE_COOL
  | REFLOW_STATE_COMPLETE
  | REFLOW_STATE_TOO_HOT
  | REFLOW_STATE_ERROR
  | REFLOW_STATE_BAKE

datatype reflowStatus_t = REFLOW_STATUS_OFF | REFLOW_STATUS_ON

datatype switch_t = SWITCH_NONE | SWITCH_1 | SWITCH_2

datatype debounceState_t = DEBOUNCE_STATE_IDLE | DEBOUNCE_STATE_CHECK | DEBOUNCE_STATE_RELEASE

datatype reflowProfile_t = REFLOW_PROFILE_LEADFREE | REFLOW_PROFILE_LEADED | REFLOW_PROFILE_BAKE

text \<open>
  The global variables of the sketch, the three output pins it drives, the byte store of
  the EEPROM and the configuration handed to the PID object. The plot variables of the
  OLED block (\<open>timerUpdate\<close>, \<open>temperature\<close>, \<open>xHead\<close>, \<open>xCnt\<close>, \<open>xScrollOffset\<close>) and the
  serial stream are written and read by the display and logging code only and are left out.
\<close>

record state =
  setpoint :: real
  input :: real
  output_pid :: real
  windowSize :: u16
  windowStartTime :: u32
  nextCheck :: u32
  nextRead :: u32
  updateLcd :: u32
  timerSoak :: u32
  buzzerPeriod :: u32
  soakTemperatureMax :: u8
  reflowTemperatureMax :: u8
  soakMicroPeriod :: u32
  reflowState :: reflowState_t
  reflowStatus :: reflowStatus_t
  reflowProfile :: reflowProfile_t
  debounceState :: debounceState_t
  lastDebounceTime :: u32
  switchStatus :: switch_t
  switchValue :: switch_t
  switchMask :: switch_t
  timerSeconds :: u16
  fault :: u8
  ssrPin :: bool
  ledPin :: bool
  buzzerPin :: bool
  eeprom :: "nat \<Rightarrow> u8"
  pidTunings :: "real \<times> real \<times> real"
  pidOutputLimits :: "real \<times> real"
  pidSampleTime :: int
  pidAutomatic :: bool

text \<open>
  What one pass of \<open>loop()\<close> reads from the outside, one field per call site, in program
  order: every \<open>millis()\<close> call, the thermocouple temperature and fault register, the two
  switch pins (\<open>True\<close> is \<open>HIGH\<close>), and what the PID library writes into \<open>output\<close>
  (\<open>None\<close>: it leaves the variable alone).
\<close>

record env =
  ms_read :: u32
  tc_temperature :: real
  tc_fault :: u8
  ms_check :: u32
  ms_lcd :: u32
  ms_state :: u32
  ms_soak :: u32
  tc_fault_error :: u8
  pid_limits_output :: "real option"
  pin_switchStartStop :: bool
  pin_switchLfPb :: bool
  ms_debounce :: u32
  ms_now :: u32
  pid_compute_output :: "real option"

text \<open>
  The \<open>MAX31856_FAULT_*\<close> masks come from the header of the thermocouple library, which is
  not part of the repository: they are a parameter of the model.
\<close>

record fault_bits =
  FAULT_CJRANGE :: u8
  FAULT_TCRANGE :: u8
  FAULT_CJHIGH :: u8
  FAULT_CJLOW :: u8
  FAULT_TCHIGH :: u8
  FAULT_TCLOW :: u8
  FAULT_OVUV :: u8
  FAULT_OPEN :: u8

section \<open>Constants\<close>

definition PROFILE_TYPE_ADDRESS :: nat where "PROFILE_TYPE_ADDRESS = 0"
definition TEMPERATURE_ROOM :: int where "TEMPERATURE_ROOM = 50"
definition TEMPERATURE_SOAK_MIN :: int where "TEMPERATURE_SOAK_MIN = 150"
definition TEMPERATURE_COOL_MIN :: int where "TEMPERATURE_COOL_MIN = 100"
definition SENSOR_SAMPLING_TIME :: u32 where "SENSOR_SAMPLING_TIME = 1000"
definition SOAK_TEMPERATURE_STEP :: int where "SOAK_TEMPERATURE_STEP = 5"
definition TEMPERATURE_SOAK_MAX_LF :: u8 where "TEMPERATURE_SOAK_MAX_LF = 200"
definition TEMPERATURE_REFLOW_MAX_LF :: u8 where "TEMPERATURE_REFLOW_MAX_LF = 250"
definition SOAK_MICRO_PERIOD_LF :: u32 where "SOAK_MICRO_PERIOD_LF = 9000"
definition TEMPERATURE_SOAK_MAX_PB :: u8 where "TEMPERATURE_SOAK_MAX_PB = 180"
definition TEMPERATURE_REFLOW_MAX_PB :: u8 where "TEMPERATURE_REFLOW_MAX_PB = 224"
definition SOAK_MICRO_PERIOD_PB :: u32 where "SOAK_MICRO_PERIOD_PB = 10000"
definition TEMPERATURE_BAKE :: int where "TEMPERATURE_BAKE = 120"
definition DEBOUNCE_PERIOD_MIN :: u32 where "DEBOUNCE_PERIOD_MIN = 100"
definition UPDATE_RATE :: u32 where "UPDATE_RATE = 100"
definition PID_SAMPLE_TIME :: int where "PID_SAMPLE_TIME = 1000"

definition PID_PREHEAT :: "real \<times> real \<times> real" where "PID_PREHEAT = (100, 25 / 1000, 20)"
definition PID_SOAK :: "real \<times> real \<times> real" where "PID_SOAK = (300, 5 / 100, 250)"
definition PID_REFLOW :: "real \<times> real \<times> real" where "PID_REFLOW = (300, 5 / 100, 350)"
definition PID_BAKE :: "real \<times> real \<times> real" where "PID_BAKE = (100, 7 / 100, 20)"


section \<open>The external collaborators as the sketch calls them\<close>

text \<open>The fault test written twice in \<open>loop()\<close>: any of the eight masks meets the register.\<close>

definition thermocouple_fault :: "fault_bits \<Rightarrow> u8 \<Rightarrow> bool" where
  "thermocouple_fault fb f \<longleftrightarrow>
     f AND FAULT_CJRANGE fb \<noteq> 0 \<or>
     f AND FAULT_TCRANGE fb \<noteq> 0 \<or>
     f AND FAULT_CJHIGH fb \<noteq> 0 \<or>
     f AND FAULT_CJLOW fb \<noteq> 0 \<or>
     f AND FAULT_TCHIGH fb \<noteq> 0 \<or>
     f AND FAULT_TCLOW fb \<noteq> 0 \<or>
     f AND FAULT_OVUV fb \<noteq> 0 \<or>
     f AND FAULT_OPEN fb \<noteq> 0"

text \<open>\<open>readSwitch()\<close>, the branch for \<open>VERSION == 2\<close>: an input is asserted when its pin is low.\<close>

definition readSwitch :: "env \<Rightarrow> switch_t" where
  "readSwitch e =
     (if \<not> pin_switchStartStop e then SWITCH_1
      else if \<not> pin_switchLfPb e then SWITCH_2
      else SWITCH_NONE)"

text \<open>
  The calls that configure the PID object at the start of a run:
  \<open>SetOutputLimits(0, windowSize)\<close>, \<open>SetSampleTime(PID_SAMPLE_TIME)\<close>, \<open>SetMode(AUTOMATIC)\<close>.
  The object holds a pointer to \<open>output\<close>; what the library stores there is read from the
  environment.
\<close>

definition pid_start :: "env \<Rightarrow> state \<Rightarrow> state" where
  "pid_start e s =
     s\<lparr>pidOutputLimits := (0, real (unat (windowSize s))),
       output_pid := (case pid_limits_output e of None \<Rightarrow> output_pid s | Some v \<Rightarrow> v),
       pidSampleTime := PID_SAMPLE_TIME,
       pidAutomatic := True\<rparr>"

definition profile_of_byte :: "u8 \<Rightarrow> reflowProfile_t" where
  "profile_of_byte v =
     (if v = 0 then REFLOW_PROFILE_LEADFREE
      else if v = 1 then REFLOW_PROFILE_LEADED
      else REFLOW_PROFILE_BAKE)"

section \<open>setup()\<close>

text \<open>
  The globals start zeroed (first enumerator, time 0, pins low); \<open>setup()\<close> loads the
  profile from the EEPROM, writes the default back when the byte is not 0, 1 or 2, sets
  the window size and reads the clock three times. The PID object is constructed with the
  preheat gains; its limits, sample time and manual mode are the library's defaults.
\<close>

definition setup_state :: "(nat \<Rightarrow> u8) \<Rightarrow> u32 \<Rightarrow> u32 \<Rightarrow> u32 \<Rightarrow> state" where
  "setup_state rom t_check t_read t_lcd =
     (let v = rom PROFILE_TYPE_ADDRESS;
          valid = (v = 0 \<or> v = 1 \<or> v = 2)
      in \<lparr>setpoint = 0, input = 0, output_pid = 0,
          windowSize = 2000,
          windowStartTime = 0,
          nextCheck = t_check,
          nextRead = t_read,
          updateLcd = t_lcd,
          timerSoak = 0,
          buzzerPeriod = 0,
          soakTemperatureMax = 0,
          reflowTemperatureMax = 0,
          soakMicroPeriod = 0,
          reflowState = REFLOW_STATE_IDLE,
          reflowStatus = REFLOW_STATUS_OFF,
          reflowProfile = (if valid then profile_of_byte v else REFLOW_PROFILE_LEADFREE),
          debounceState = DEBOUNCE_STATE_IDLE,
          lastDebounceTime = 0,
          switchStatus = SWITCH_NONE,
          switchValue = SWITCH_NONE,
          switchMask = SWITCH_NONE,
          timerSeconds = 0,
          fault = 0,
          ssrPin = False,
          ledPin = False,
          buzzerPin = False,
          eeprom = (if valid then rom else rom(PROFILE_TYPE_ADDRESS := 0)),
          pidTunings = PID_PREHEAT,
          pidOutputLimits = (0, 255),
          pidSampleTime = 100,
          pidAutomatic = False\<rparr>)"

section \<open>loop(), block by block\<close>

text \<open>Lines 455-480: the thermocouple is read once per sampling period and its fault
  register checked.\<close>

definition read_thermocouple :: "fault_bits \<Rightarrow> env \<Rightarrow> state \<Rightarrow> state" where
  "read_thermocouple fb e s =
     (if ms_read e > nextRead s then
        (let s1 = s\<lparr>nextRead := nextRead s + SENSOR_SAMPLING_TIME,
                    input := tc_temperature e,
                    fault := tc_fault e\<rparr>
         in if thermocouple_fault fb (fault s1)
            then s1\<lparr>reflowState := REFLOW_STATE_ERROR, reflowStatus := REFLOW_STATUS_OFF\<rparr>
            else s1)
      else s)"

text \<open>Lines 482-507: the heart beat LED and the seconds counter.\<close>

definition heart_beat :: "env \<Rightarrow> state \<Rightarrow> state" where
  "heart_beat e s =
     (if ms_check e > nextCheck s then
        (let s1 = s\<lparr>nextCheck := nextCheck s + SENSOR_SAMPLING_TIME\<rparr>
         in if reflowStatus s1 = REFLOW_STATUS_ON
            then s1\<lparr>ledPin := \<not> ledPin s1, timerSeconds := timerSeconds s1 + 1\<rparr>
            else s1\<lparr>ledPin := False\<rparr>)
      else s)"

text \<open>Lines 509-654: the display refresh; of the modelled variables it writes its own
  deadline only.\<close>

definition update_display :: "env \<Rightarrow> state \<Rightarrow> state" where
  "update_display e s =
     (if ms_lcd e > updateLcd s then s\<lparr>updateLcd := updateLcd s + UPDATE_RATE\<rparr> else s)"

text \<open>Lines 656-838: the reflow oven controller state machine.\<close>

definition state_machine :: "fault_bits \<Rightarrow> env \<Rightarrow> state \<Rightarrow> state" where
  "state_machine fb e s =
     (case reflowState s of
        REFLOW_STATE_IDLE \<Rightarrow>
          if input s \<ge> real_of_int TEMPERATURE_ROOM then s\<lparr>reflowState := REFLOW_STATE_TOO_HOT\<rparr>
          else if switchStatus s = SWITCH_1 then
            (let s1 = s\<lparr>timerSeconds := 0, windowStartTime := ms_state e\<rparr>
             in if reflowProfile s1 = REFLOW_PROFILE_BAKE then
                  (pid_start e (s1\<lparr>setpoint := real_of_int TEMPERATURE_BAKE\<rparr>))
                    \<lparr>reflowState := REFLOW_STATE_BAKE\<rparr>
                else
                  (let s2 = s1\<lparr>setpoint := real_of_int TEMPERATURE_SOAK_MIN\<rparr>;
                       s3 = (if reflowProfile s2 = REFLOW_PROFILE_LEADFREE
                             then s2\<lparr>soakTemperatureMax := TEMPERATURE_SOAK_MAX_LF,
                                     reflowTemperatureMax := TEMPERATURE_REFLOW_MAX_LF,
                                     soakMicroPeriod := SOAK_MICRO_PERIOD_LF\<rparr>
                             else s2\<lparr>soakTemperatureMax := TEMPERATURE_SOAK_MAX_PB,
                                     reflowTemperatureMax := TEMPERATURE_REFLOW_MAX_PB,
                                     soakMicroPeriod := SOAK_MICRO_PERIOD_PB\<rparr>)
                   in (pid_start e s3)\<lparr>reflowState := REFLOW_STATE_PREHEAT\<rparr>))
          else s
      | REFLOW_STATE_PREHEAT \<Rightarrow>
          (let s1 = s\<lparr>reflowStatus := REFLOW_STATUS_ON\<rparr>
           in if input s1 \<ge> real_of_int TEMPERATURE_SOAK_MIN then
                s1\<lparr>timerSoak := ms_state e + soakMicroPeriod s1,
                   pidTunings := PID_SOAK,
                   setpoint := real_of_int (TEMPERATURE_SOAK_MIN + SOAK_TEMPERATURE_STEP),
                   reflowState := REFLOW_STATE_SOAK\<rparr>
              else s1)
      | REFLOW_STATE_SOAK \<Rightarrow>
          if ms_state e > timerSoak s then
            (let s1 = s\<lparr>timerSoak := ms_soak e + soakMicroPeriod s\<rparr>;
                 s2 = s1\<lparr>setpoint := setpoint s1 + real_of_int SOAK_TEMPERATURE_STEP\<rparr>
             in if setpoint s2 > real (unat (soakTemperatureMax s2)) then
                  s2\<lparr>pidTunings := PID_REFLOW,
                     setpoint := real (unat (reflowTemperatureMax s2)),
                     reflowState := REFLOW_STATE_REFLOW\<rparr>
                else s2)
          else s
      | REFLOW_STATE_REFLOW \<Rightarrow>
          if input s \<ge> real_of_int (uint (reflowTemperatureMax s) - 5) then
            s\<lparr>pidTunings := PID_REFLOW,
              setpoint := real_of_int TEMPERATURE_COOL_MIN,
              reflowState := REFLOW_STATE_COOL\<rparr>
          else s
      | REFLOW_STATE_COOL \<Rightarrow>
          if input s \<le> real_of_int TEMPERATURE_COOL_MIN then
            s\<lparr>buzzerPeriod := ms_state e + 1000,
              buzzerPin := True,
              reflowStatus := REFLOW_STATUS_OFF,
              reflowState := REFLOW_STATE_COMPLETE\<rparr>
          else s
      | REFLOW_STATE_COMPLETE \<Rightarrow>
          if ms_state e > buzzerPeriod s then
            s\<lparr>buzzerPin := False, reflowState := REFLOW_STATE_IDLE\<rparr>
          else s
      | REFLOW_STATE_TOO_HOT \<Rightarrow>
          if input s < real_of_int TEMPERATURE_ROOM then s\<lparr>reflowState := REFLOW_STATE_IDLE\<rparr>
          else s
      | REFLOW_STATE_ERROR \<Rightarrow>
          (let s1 = s\<lparr>fault := tc_fault_error e\<rparr>
           in if thermocouple_fault fb (fault s1)
              then s1\<lparr>reflowState := REFLOW_STATE_ERROR\<rparr>
              else s1\<lparr>reflowState := REFLOW_STATE_IDLE\<rparr>)
      | REFLOW_STATE_BAKE \<Rightarrow>
          s\<lparr>reflowStatus := REFLOW_STATUS_ON, pidTunings := PID_BAKE\<rparr>)"

text \<open>Lines 840-882: the validated press is acted on and then cleared.\<close>

definition switch_action :: "state \<Rightarrow> state" where
  "switch_action s =
     (let s1 =
        (if switchStatus s = SWITCH_1 then
           (if reflowStatus s = REFLOW_STATUS_ON
            then s\<lparr>reflowStatus := REFLOW_STATUS_OFF, reflowState := REFLOW_STATE_IDLE\<rparr>
            else s)
         else if switchStatus s = SWITCH_2 then
           (if reflowState s = REFLOW_STATE_IDLE then
              (if reflowProfile s = REFLOW_PROFILE_LEADFREE then
                 s\<lparr>reflowProfile := REFLOW_PROFILE_LEADED,
                   eeprom := (eeprom s)(PROFILE_TYPE_ADDRESS := 1)\<rparr>
               else if reflowProfile s = REFLOW_PROFILE_LEADED then
                 s\<lparr>reflowProfile := REFLOW_PROFILE_BAKE,
                   eeprom := (eeprom s)(PROFILE_TYPE_ADDRESS := 2)\<rparr>
               else
                 s\<lparr>reflowProfile := REFLOW_PROFILE_LEADFREE,
                   eeprom := (eeprom s)(PROFILE_TYPE_ADDRESS := 0)\<rparr>)
            else s)
         else s)
      in s1\<lparr>switchStatus := SWITCH_NONE\<rparr>)"

text \<open>Lines 884-934: the switch debounce state machine. \<open>lastDebounceTime\<close> is a
  \<open>long\<close>; the difference with \<open>millis()\<close> is computed and compared as \<open>unsigned long\<close>.\<close>

definition debounce :: "env \<Rightarrow> state \<Rightarrow> state" where
  "debounce e s =
     (case debounceState s of
        DEBOUNCE_STATE_IDLE \<Rightarrow>
          (let s1 = s\<lparr>switchStatus := SWITCH_NONE, switchValue := readSwitch e\<rparr>
           in if switchValue s1 \<noteq> SWITCH_NONE then
                s1\<lparr>switchMask := switchValue s1,
                   lastDebounceTime := ms_debounce e,
                   debounceState := DEBOUNCE_STATE_CHECK\<rparr>
              else s1)
      | DEBOUNCE_STATE_CHECK \<Rightarrow>
          (let s1 = s\<lparr>switchValue := readSwitch e\<rparr>
           in if switchValue s1 = switchMask s1 then
                (if ms_debounce e - lastDebounceTime s1 > DEBOUNCE_PERIOD_MIN then
                   s1\<lparr>switchStatus := switchMask s1, debounceState := DEBOUNCE_STATE_RELEASE\<rparr>
                 else s1)
              else s1\<lparr>debounceState := DEBOUNCE_STATE_IDLE\<rparr>)
      | DEBOUNCE_STATE_RELEASE \<Rightarrow>
          (let s1 = s\<lparr>switchValue := readSwitch e\<rparr>
           in if switchValue s1 = SWITCH_NONE then s1\<lparr>debounceState := DEBOUNCE_STATE_IDLE\<rparr>
              else s1))"

text \<open>Lines 936-955: PID computation and SSR control. \<open>windowSize\<close> is widened to
  \<open>unsigned long\<close> for the comparison and the addition; the elapsed time is converted
  to \<open>double\<close> for the comparison with \<open>output\<close>.\<close>

definition ssr_control :: "env \<Rightarrow> state \<Rightarrow> state" where
  "ssr_control e s =
     (if reflowStatus s = REFLOW_STATUS_ON then
        (let now = ms_now e;
             s1 = s\<lparr>output_pid := (case pid_compute_output e of None \<Rightarrow> output_pid s | Some v \<Rightarrow> v)\<rparr>;
             s2 = (if now - windowStartTime s1 > ucast (windowSize s1)
                   then s1\<lparr>windowStartTime := windowStartTime s1 + ucast (windowSize s1)\<rparr>
                   else s1)
         in if output_pid s2 > real (unat (now - windowStartTime s2))
            then s2\<lparr>ssrPin := True\<rparr>
            else s2\<lparr>ssrPin := False\<rparr>)
      else s\<lparr>ssrPin := False\<rparr>)"

text \<open>The state on which the state machine runs, the state on which the SSR block runs,
  and the whole pass.\<close>

definition before_state_machine :: "fault_bits \<Rightarrow> env \<Rightarrow> state \<Rightarrow> state" where
  "before_state_machine fb e s = update_display e (heart_beat e (read_thermocouple fb e s))"

definition before_switch_action :: "fault_bits \<Rightarrow> env \<Rightarrow> state \<Rightarrow> state" where
  "before_switch_action fb e s = state_machine fb e (before_state_machine fb e s)"

definition before_ssr_control :: "fault_bits \<Rightarrow> env \<Rightarrow> state \<Rightarrow> state" where
  "before_ssr_control fb e s = debounce e (switch_action (before_switch_action fb e s))"

definition loop :: "fault_bits \<Rightarrow> env \<Rightarrow> state \<Rightarrow> state" where
  "loop fb e s = ssr_control e (before_ssr_control fb e s)"

text \<open>Consecutive passes, and the validated press left by each of them.\<close>

fun run :: "fault_bits \<Rightarrow> env list \<Rightarrow> state \<Rightarrow> state" where
  "run fb [] s = s"
| "run fb (e # es) s = run fb es (loop fb e s)"

fun presses :: "fault_bits \<Rightarrow> env list \<Rightarrow> state \<Rightarrow> switch_t list" where
  "presses fb [] s = []"
| "presses fb (e # es) s = switchStatus (loop fb e s) # presses fb es (loop fb e s)"

section \<open>Properties the claims speak about\<close>

text \<open>The process is marked ON only in the five heating and cooling stages.\<close>

definition status_consistent :: "state \<Rightarrow> bool" where
  "status_consistent s \<longleftrightarrow>
     (reflowStatus s = REFLOW_STATUS_ON \<longrightarrow>
        reflowState s \<in> {REFLOW_STATE_PREHEAT, REFLOW_STATE_SOAK, REFLOW_STATE_REFLOW,
                         REFLOW_STATE_COOL, REFLOW_STATE_BAKE})"

text \<open>The order in which the specification says the profile is cycled, and the byte that
  stands for each profile in the EEPROM (its enumerator value).\<close>

fun next_profile :: "reflowProfile_t \<Rightarrow> reflowProfile_t" where
  "next_profile REFLOW_PROFILE_LEADFREE = REFLOW_PROFILE_LEADED"
| "next_profile REFLOW_PROFILE_LEADED = REFLOW_PROFILE_BAKE"
| "next_profile REFLOW_PROFILE_BAKE = REFLOW_PROFILE_LEADFREE"

fun profile_byte :: "reflowProfile_t \<Rightarrow> u8" where
  "profile_byte REFLOW_PROFILE_LEADFREE = 0"
| "profile_byte REFLOW_PROFILE_LEADED = 1"
| "profile_byte REFLOW_PROFILE_BAKE = 2"

section \<open>Concrete inputs\<close>

text \<open>One choice of masks, a bit each in the order of the test, for the concrete runs
  below. The theorems hold for any masks.\<close>

definition max31856_bits :: fault_bits where
  "max31856_bits =
     \<lparr>FAULT_CJRANGE = 0x80, FAULT_TCRANGE = 0x40, FAULT_CJHIGH = 0x20, FAULT_CJLOW = 0x10,
      FAULT_TCHIGH = 0x08, FAULT_TCLOW = 0x04, FAULT_OVUV = 0x02, FAULT_OPEN = 0x01\<rparr>"

text \<open>The state after \<open>setup()\<close> with profile byte 0 and the clock at 0.\<close>

definition power_on :: state where
  "power_on = setup_state (\<lambda>_. 0) 0 0 0"

text \<open>A pass at time \<open>t\<close> in which no sampling deadline has passed (the deadlines of
  \<open>power_on\<close> are 0 and \<open>millis() > 0\<close> fails at 0), nothing is pressed, the sensor
  reports 25 degrees and no fault.\<close>

definition quiet :: "u32 \<Rightarrow> env" where
  "quiet t =
     \<lparr>ms_read = 0, tc_temperature = 25, tc_fault = 0, ms_check = 0, ms_lcd = 0,
      ms_state = t, ms_soak = t, tc_fault_error = 0, pid_limits_output = None,
      pin_switchStartStop = True, pin_switchLfPb = True, ms_debounce = t, ms_now = t,
      pid_compute_output = None\<rparr>"

text \<open>The same pass with the start/stop switch held down.\<close>

definition start_held :: "u32 \<Rightarrow> env" where
  "start_held t = (quiet t)\<lparr>pin_switchStartStop := False\<rparr>"

text \<open>A pass in which the thermocouple is sampled and reports the given temperature and
  fault register; the state machine's own reading of the register is given separately.\<close>

definition sampled :: "u32 \<Rightarrow> real \<Rightarrow> u8 \<Rightarrow> u8 \<Rightarrow> env" where
  "sampled t temp f f_again =
     (quiet t)\<lparr>ms_read := t, tc_temperature := temp, tc_fault := f, tc_fault_error := f_again\<rparr>"

text \<open>A lead-free run in the soak stage: set point 155, next step due at 1000.\<close>

definition soaking :: state where
  "soaking =
     power_on\<lparr>reflowState := REFLOW_STATE_SOAK, reflowStatus := REFLOW_STATUS_ON,
              input := 152, setpoint := 155,
              soakTemperatureMax := TEMPERATURE_SOAK_MAX_LF,
              reflowTemperatureMax := TEMPERATURE_REFLOW_MAX_LF,
              soakMicroPeriod := SOAK_MICRO_PERIOD_LF,
              timerSoak := 1000, pidTunings := PID_SOAK, pidAutomatic := True,
              pidOutputLimits := (0, 2000), pidSampleTime := 1000\<rparr>"

text \<open>A lead-free run in the reflow stage at 246 degrees, with the heater on.\<close>

definition reflowing :: state where
  "reflowing =
     soaking\<lparr>reflowState := REFLOW_STATE_REFLOW, input := 246, setpoint := 250,
             pidTunings := PID_REFLOW, output_pid := 2000, ssrPin := True\<rparr>"

text \<open>The controller waiting in the error state after a fault.\<close>

definition faulted :: state where
  "faulted = power_on\<lparr>reflowState := REFLOW_STATE_ERROR, fault := 1\<rparr>"

section \<open>What each block leaves alone\<close>

lemmas constants =
  PROFILE_TYPE_ADDRESS_def TEMPERATURE_ROOM_def TEMPERATURE_SOAK_MIN_def
  TEMPERATURE_COOL_MIN_def SENSOR_SAMPLING_TIME_def SOAK_TEMPERATURE_STEP_def
  TEMPERATURE_SOAK_MAX_LF_def TEMPERATURE_REFLOW_MAX_LF_def SOAK_MICRO_PERIOD_LF_def
  TEMPERATURE_SOAK_MAX_PB_def TEMPERATURE_REFLOW_MAX_PB_def SOAK_MICRO_PERIOD_PB_def
  TEMPERATURE_BAKE_def DEBOUNCE_PERIOD_MIN_def UPDATE_RATE_def PID_SAMPLE_TIME_def
  PID_PREHEAT_def PID_SOAK_def PID_REFLOW_def PID_BAKE_def

lemmas blocks = read_thermocouple_def heart_beat_def update_display_def state_machine_def
  switch_action_def debounce_def ssr_control_def pid_start_def

lemmas passes = before_state_machine_def before_switch_action_def before_ssr_control_def loop_def

lemmas concrete = max31856_bits_def power_on_def setup_state_def quiet_def start_held_def
  sampled_def soaking_def reflowing_def faulted_def readSwitch_def thermocouple_fault_def

lemma before_state_machine_frame [simp]:
  "switchStatus (before_state_machine fb e s) = switchStatus s"
  "debounceState (before_state_machine fb e s) = debounceState s"
  "switchMask (before_state_machine fb e s) = switchMask s"
  "lastDebounceTime (before_state_machine fb e s) = lastDebounceTime s"
  "reflowProfile (before_state_machine fb e s) = reflowProfile s"
  "eeprom (before_state_machine fb e s) = eeprom s"
  "setpoint (before_state_machine fb e s) = setpoint s"
  "timerSoak (before_state_machine fb e s) = timerSoak s"
  "soakMicroPeriod (before_state_machine fb e s) = soakMicroPeriod s"
  "windowStartTime (before_state_machine fb e s) = windowStartTime s"
  "windowSize (before_state_machine fb e s) = windowSize s"
  by (simp_all add: before_state_machine_def read_thermocouple_def heart_beat_def
      update_display_def Let_def)

lemma state_machine_frame [simp]:
  "switchStatus (state_machine fb e s) = switchStatus s"
  "debounceState (state_machine fb e s) = debounceState s"
  "switchMask (state_machine fb e s) = switchMask s"
  "lastDebounceTime (state_machine fb e s) = lastDebounceTime s"
  "reflowProfile (state_machine fb e s) = reflowProfile s"
  "eeprom (state_machine fb e s) = eeprom s"
  "input (state_machine fb e s) = input s"
  "windowSize (state_machine fb e s) = windowSize s"
  by (cases "reflowState s"; simp add: state_machine_def pid_start_def Let_def)+

lemma switch_action_frame [simp]:
  "switchStatus (switch_action s) = SWITCH_NONE"
  "debounceState (switch_action s) = debounceState s"
  "switchMask (switch_action s) = switchMask s"
  "lastDebounceTime (switch_action s) = lastDebounceTime s"
  "setpoint (switch_action s) = setpoint s"
  "input (switch_action s) = input s"
  "timerSoak (switch_action s) = timerSoak s"
  "windowStartTime (switch_action s) = windowStartTime s"
  "windowSize (switch_action s) = windowSize s"
  by (simp_all add: switch_action_def Let_def)

lemma debounce_frame [simp]:
  "reflowStatus (debounce e s) = reflowStatus s"
  "reflowState (debounce e s) = reflowState s"
  "reflowProfile (debounce e s) = reflowProfile s"
  "eeprom (debounce e s) = eeprom s"
  "setpoint (debounce e s) = setpoint s"
  "input (debounce e s) = input s"
  "timerSoak (debounce e s) = timerSoak s"
  "windowStartTime (debounce e s) = windowStartTime s"
  "windowSize (debounce e s) = windowSize s"
  by (cases "debounceState s"; simp add: debounce_def Let_def)+

lemma ssr_control_frame [simp]:
  "reflowStatus (ssr_control e s) = reflowStatus s"
  "reflowState (ssr_control e s) = reflowState s"
  "reflowProfile (ssr_control e s) = reflowProfile s"
  "eeprom (ssr_control e s) = eeprom s"
  "setpoint (ssr_control e s) = setpoint s"
  "input (ssr_control e s) = input s"
  "timerSoak (ssr_control e s) = timerSoak s"
  "switchStatus (ssr_control e s) = switchStatus s"
  "debounceState (ssr_control e s) = debounceState s"
  "switchMask (ssr_control e s) = switchMask s"
  "lastDebounceTime (ssr_control e s) = lastDebounceTime s"
  by (simp_all add: ssr_control_def Let_def)

lemma ssr_control_off: "reflowStatus s = REFLOW_STATUS_OFF \<Longrightarrow> ssr_control e s = s\<lparr>ssrPin := False\<rparr>"
  by (simp add: ssr_control_def)

lemma run_append: "run fb (es @ es') s = run fb es' (run fb es s)"
  by (induction es arbitrary: s) simp_all

lemma presses_append: "presses fb (es @ es') s = presses fb es s @ presses fb es' (run fb es s)"
  by (induction es arbitrary: s) simp_all

section \<open>The status invariant\<close>

lemma status_consistent_read_thermocouple:
  "status_consistent s \<Longrightarrow> status_consistent (read_thermocouple fb e s)"
  by (simp add: status_consistent_def read_thermocouple_def Let_def)

lemma status_consistent_heart_beat: "status_consistent s \<Longrightarrow> status_consistent (heart_beat e s)"
  by (simp add: status_consistent_def heart_beat_def Let_def)

lemma status_consistent_update_display:
  "status_consistent s \<Longrightarrow> status_consistent (update_display e s)"
  by (simp add: status_consistent_def update_display_def)

lemma status_consistent_before_state_machine:
  "status_consistent s \<Longrightarrow> status_consistent (before_state_machine fb e s)"
  unfolding before_state_machine_def
  by (intro status_consistent_update_display status_consistent_heart_beat
      status_consistent_read_thermocouple)

lemma status_consistent_state_machine:
  "status_consistent s \<Longrightarrow> status_consistent (state_machine fb e s)"
  by (cases "reflowState s")
     (simp_all add: status_consistent_def state_machine_def pid_start_def Let_def)

lemma status_consistent_switch_action:
  "status_consistent s \<Longrightarrow> status_consistent (switch_action s)"
  by (auto simp add: status_consistent_def switch_action_def Let_def)

lemma status_consistent_loop: "status_consistent s \<Longrightarrow> status_consistent (loop fb e s)"
proof -
  assume "status_consistent s"
  then have "status_consistent (switch_action (before_switch_action fb e s))"
    unfolding before_switch_action_def
    by (intro status_consistent_switch_action status_consistent_state_machine
        status_consistent_before_state_machine)
  then show ?thesis
    by (simp add: status_consistent_def loop_def before_ssr_control_def)
qed

lemma status_consistent_run: "status_consistent s \<Longrightarrow> status_consistent (run fb es s)"
  by (induction es arbitrary: s) (simp_all add: status_consistent_loop)

lemma status_consistent_setup_state: "status_consistent (setup_state rom t0 t1 t2)"
  by (simp add: status_consistent_def setup_state_def Let_def)

lemma status_consistent_reachable:
  "status_consistent (run fb es (setup_state rom t0 t1 t2))"
  by (rule status_consistent_run [OF status_consistent_setup_state])

lemma off_outside_a_run:
  "status_consistent s \<Longrightarrow>
   reflowState s \<in> {REFLOW_STATE_IDLE, REFLOW_STATE_COMPLETE, REFLOW_STATE_TOO_HOT, REFLOW_STATE_ERROR} \<Longrightarrow>
   reflowStatus s = REFLOW_STATUS_OFF"
  by (cases "reflowStatus s") (auto simp add: status_consistent_def)

section \<open>What the blocks do, case by case\<close>

lemma read_thermocouple_fault:
  "ms_read e > nextRead s \<Longrightarrow> thermocouple_fault fb (tc_fault e) \<Longrightarrow>
   reflowState (read_thermocouple fb e s) = REFLOW_STATE_ERROR \<and>
   reflowStatus (read_thermocouple fb e s) = REFLOW_STATUS_OFF"
  by (simp add: read_thermocouple_def Let_def)

lemma heart_beat_keeps [simp]:
  "reflowState (heart_beat e s) = reflowState s"
  "reflowStatus (heart_beat e s) = reflowStatus s"
  "input (heart_beat e s) = input s"
  by (simp_all add: heart_beat_def Let_def)

lemma update_display_keeps [simp]:
  "reflowState (update_display e s) = reflowState s"
  "reflowStatus (update_display e s) = reflowStatus s"
  "input (update_display e s) = input s"
  by (simp_all add: update_display_def)

lemma state_machine_error:
  "reflowState s = REFLOW_STATE_ERROR \<Longrightarrow>
   reflowState (state_machine fb e s) =
     (if thermocouple_fault fb (tc_fault_error e) then REFLOW_STATE_ERROR else REFLOW_STATE_IDLE)
   \<and> reflowStatus (state_machine fb e s) = reflowStatus s"
  by (simp add: state_machine_def Let_def)

lemma switch_action_off:
  "reflowStatus s = REFLOW_STATUS_OFF \<Longrightarrow>
   reflowState (switch_action s) = reflowState s \<and> reflowStatus (switch_action s) = REFLOW_STATUS_OFF"
  by (simp add: switch_action_def Let_def)

lemma loop_state_status:
  "reflowState (loop fb e s) = reflowState (switch_action (before_switch_action fb e s))"
  "reflowStatus (loop fb e s) = reflowStatus (switch_action (before_switch_action fb e s))"
  by (simp_all add: loop_def before_ssr_control_def)

lemma loop_from_error:
  assumes "reflowState (before_state_machine fb e s) = REFLOW_STATE_ERROR"
    and "reflowStatus (before_state_machine fb e s) = REFLOW_STATUS_OFF"
  shows "reflowState (loop fb e s) =
     (if thermocouple_fault fb (tc_fault_error e) then REFLOW_STATE_ERROR else REFLOW_STATE_IDLE)"
    and "reflowStatus (loop fb e s) = REFLOW_STATUS_OFF"
    and "\<not> ssrPin (loop fb e s)"
proof -
  let ?m = "before_switch_action fb e s"
  have m: "reflowState ?m =
       (if thermocouple_fault fb (tc_fault_error e) then REFLOW_STATE_ERROR else REFLOW_STATE_IDLE)"
    "reflowStatus ?m = REFLOW_STATUS_OFF"
    using state_machine_error [OF assms(1), of fb e] assms(2)
    by (simp_all add: before_switch_action_def)
  show "reflowState (loop fb e s) =
     (if thermocouple_fault fb (tc_fault_error e) then REFLOW_STATE_ERROR else REFLOW_STATE_IDLE)"
    and off: "reflowStatus (loop fb e s) = REFLOW_STATUS_OFF"
    using switch_action_off [OF m(2)] m(1) by (simp_all add: loop_state_status)
  from off have "reflowStatus (before_ssr_control fb e s) = REFLOW_STATUS_OFF"
    by (simp add: loop_def)
  then show "\<not> ssrPin (loop fb e s)"
    by (simp add: loop_def ssr_control_off)
qed

lemma switch_action_cancel:
  "switchStatus s = SWITCH_1 \<Longrightarrow> reflowStatus s = REFLOW_STATUS_ON \<Longrightarrow>
   reflowState (switch_action s) = REFLOW_STATE_IDLE \<and>
   reflowStatus (switch_action s) = REFLOW_STATUS_OFF"
  by (simp add: switch_action_def Let_def)

lemma state_machine_start:
  assumes "reflowState s = REFLOW_STATE_IDLE" and "switchStatus s = SWITCH_1"
    and "input s < real_of_int TEMPERATURE_ROOM"
  shows "reflowState (state_machine fb e s) =
           (if reflowProfile s = REFLOW_PROFILE_BAKE then REFLOW_STATE_BAKE else REFLOW_STATE_PREHEAT)"
    and "reflowStatus (state_machine fb e s) = reflowStatus s"
  using assms by (simp_all add: state_machine_def pid_start_def Let_def)

lemma state_machine_turns_on_only_there:
  "reflowStatus (state_machine fb e s) = REFLOW_STATUS_ON \<Longrightarrow>
   reflowStatus s = REFLOW_STATUS_OFF \<Longrightarrow>
   reflowState s \<in> {REFLOW_STATE_PREHEAT, REFLOW_STATE_BAKE}"
  by (cases "reflowState s")
     (auto simp add: state_machine_def pid_start_def Let_def split: if_splits)

lemma state_machine_turns_on:
  "reflowState s \<in> {REFLOW_STATE_PREHEAT, REFLOW_STATE_BAKE} \<Longrightarrow>
   reflowStatus (state_machine fb e s) = REFLOW_STATUS_ON"
  by (auto simp add: state_machine_def Let_def)

lemma switch_action_select:
  assumes "switchStatus s = SWITCH_2"
  shows "reflowState s = REFLOW_STATE_IDLE \<Longrightarrow>
           reflowProfile (switch_action s) = next_profile (reflowProfile s) \<and>
           eeprom (switch_action s) =
             (eeprom s)(PROFILE_TYPE_ADDRESS := profile_byte (next_profile (reflowProfile s)))"
    and "reflowState s \<noteq> REFLOW_STATE_IDLE \<Longrightarrow>
           reflowProfile (switch_action s) = reflowProfile s \<and> eeprom (switch_action s) = eeprom s"
    and "reflowState (switch_action s) = reflowState s"
    and "reflowStatus (switch_action s) = reflowStatus s"
  using assms by (cases "reflowProfile s"; simp add: switch_action_def Let_def)+

lemma loop_profile:
  "reflowProfile (loop fb e s) = reflowProfile (switch_action (before_switch_action fb e s))"
  "eeprom (loop fb e s) = eeprom (switch_action (before_switch_action fb e s))"
  by (simp_all add: loop_def before_ssr_control_def)

lemma state_machine_idle_hot:
  "reflowState s = REFLOW_STATE_IDLE \<Longrightarrow> input s \<ge> real_of_int TEMPERATURE_ROOM \<Longrightarrow>
   state_machine fb e s = s\<lparr>reflowState := REFLOW_STATE_TOO_HOT\<rparr>"
  by (simp add: state_machine_def)

lemma state_machine_too_hot:
  "reflowState s = REFLOW_STATE_TOO_HOT \<Longrightarrow>
   state_machine fb e s =
     (if input s < real_of_int TEMPERATURE_ROOM then s\<lparr>reflowState := REFLOW_STATE_IDLE\<rparr> else s)"
  by (simp add: state_machine_def)

lemma state_machine_begins_run:
  "reflowState (state_machine fb e s) \<in> {REFLOW_STATE_PREHEAT, REFLOW_STATE_BAKE} \<Longrightarrow>
   reflowState (state_machine fb e s) \<noteq> reflowState s \<Longrightarrow>
   reflowState s = REFLOW_STATE_IDLE \<and> input s < real_of_int TEMPERATURE_ROOM
     \<and> switchStatus s = SWITCH_1"
  by (cases "reflowState s")
     (auto simp add: state_machine_def pid_start_def Let_def split: if_splits)

lemma switch_action_state:
  "reflowState (switch_action s) = reflowState s \<or> reflowState (switch_action s) = REFLOW_STATE_IDLE"
  by (simp add: switch_action_def Let_def)

lemma read_thermocouple_state:
  "reflowState (read_thermocouple fb e s) = reflowState s \<or>
   reflowState (read_thermocouple fb e s) = REFLOW_STATE_ERROR"
  by (simp add: read_thermocouple_def Let_def)

lemma loop_input: "input (loop fb e s) = input (before_state_machine fb e s)"
  by (simp add: loop_def before_ssr_control_def before_switch_action_def)

lemma before_state_machine_frame2 [simp]:
  "soakTemperatureMax (before_state_machine fb e s) = soakTemperatureMax s"
  "reflowTemperatureMax (before_state_machine fb e s) = reflowTemperatureMax s"
  "pidTunings (before_state_machine fb e s) = pidTunings s"
  by (simp_all add: before_state_machine_def read_thermocouple_def heart_beat_def
      update_display_def Let_def)

lemma after_state_machine_frame:
  "setpoint (loop fb e s) = setpoint (before_switch_action fb e s)"
  "timerSoak (loop fb e s) = timerSoak (before_switch_action fb e s)"
  "pidTunings (loop fb e s) = pidTunings (before_switch_action fb e s)"
  by (simp_all add: loop_def before_ssr_control_def ssr_control_def debounce_def
      switch_action_def Let_def split: debounceState_t.splits)

lemma state_machine_soak:
  assumes "reflowState s = REFLOW_STATE_SOAK"
  shows "\<not> ms_state e > timerSoak s \<Longrightarrow> state_machine fb e s = s"
    and "ms_state e > timerSoak s \<Longrightarrow>
         \<not> setpoint s + real_of_int SOAK_TEMPERATURE_STEP > real (unat (soakTemperatureMax s)) \<Longrightarrow>
         state_machine fb e s =
           s\<lparr>timerSoak := ms_soak e + soakMicroPeriod s,
             setpoint := setpoint s + real_of_int SOAK_TEMPERATURE_STEP\<rparr>"
    and "ms_state e > timerSoak s \<Longrightarrow>
         setpoint s + real_of_int SOAK_TEMPERATURE_STEP > real (unat (soakTemperatureMax s)) \<Longrightarrow>
         state_machine fb e s =
           s\<lparr>timerSoak := ms_soak e + soakMicroPeriod s,
             pidTunings := PID_REFLOW,
             setpoint := real (unat (reflowTemperatureMax s)),
             reflowState := REFLOW_STATE_REFLOW\<rparr>"
  using assms by (simp_all add: state_machine_def Let_def)

lemma ssr_control_window:
  assumes "reflowStatus s = REFLOW_STATUS_ON"
  shows "windowStartTime (ssr_control e s) =
     (if ms_now e - windowStartTime s > ucast (windowSize s)
      then windowStartTime s + ucast (windowSize s) else windowStartTime s)"
  using assms by (simp add: ssr_control_def Let_def)

lemma loop_debounce_fields:
  "switchStatus (loop fb e s) = switchStatus (debounce e (s\<lparr>switchStatus := SWITCH_NONE\<rparr>))"
  "debounceState (loop fb e s) = debounceState (debounce e (s\<lparr>switchStatus := SWITCH_NONE\<rparr>))"
  "switchMask (loop fb e s) = switchMask (debounce e (s\<lparr>switchStatus := SWITCH_NONE\<rparr>))"
  "lastDebounceTime (loop fb e s) = lastDebounceTime (debounce e (s\<lparr>switchStatus := SWITCH_NONE\<rparr>))"
  by (simp_all add: loop_def before_ssr_control_def before_switch_action_def debounce_def Let_def
      split: debounceState_t.splits)

lemma loop_debounce_idle:
  assumes "debounceState s = DEBOUNCE_STATE_IDLE" and "readSwitch e \<noteq> SWITCH_NONE"
  shows "switchStatus (loop fb e s) = SWITCH_NONE"
    and "debounceState (loop fb e s) = DEBOUNCE_STATE_CHECK"
    and "switchMask (loop fb e s) = readSwitch e"
    and "lastDebounceTime (loop fb e s) = ms_debounce e"
  using assms by (simp_all add: loop_debounce_fields debounce_def Let_def)

lemma loop_debounce_check_wait:
  assumes "debounceState s = DEBOUNCE_STATE_CHECK" and "readSwitch e = switchMask s"
    and "ms_debounce e - lastDebounceTime s \<le> DEBOUNCE_PERIOD_MIN"
  shows "switchStatus (loop fb e s) = SWITCH_NONE"
    and "debounceState (loop fb e s) = DEBOUNCE_STATE_CHECK"
    and "switchMask (loop fb e s) = switchMask s"
    and "lastDebounceTime (loop fb e s) = lastDebounceTime s"
proof -
  have "\<not> ms_debounce e - lastDebounceTime s > DEBOUNCE_PERIOD_MIN"
    using assms(3) by (simp add: not_less)
  with assms(1,2)
  show "switchStatus (loop fb e s) = SWITCH_NONE"
    and "debounceState (loop fb e s) = DEBOUNCE_STATE_CHECK"
    and "switchMask (loop fb e s) = switchMask s"
    and "lastDebounceTime (loop fb e s) = lastDebounceTime s"
    by (simp_all add: loop_debounce_fields debounce_def Let_def)
qed

lemma loop_debounce_check_valid:
  assumes "debounceState s = DEBOUNCE_STATE_CHECK" and "readSwitch e = switchMask s"
    and "ms_debounce e - lastDebounceTime s > DEBOUNCE_PERIOD_MIN"
  shows "switchStatus (loop fb e s) = switchMask s"
    and "debounceState (loop fb e s) = DEBOUNCE_STATE_RELEASE"
  using assms by (simp_all add: loop_debounce_fields debounce_def Let_def)

lemma loop_debounce_check_false_trigger:
  assumes "debounceState s = DEBOUNCE_STATE_CHECK" and "readSwitch e \<noteq> switchMask s"
  shows "switchStatus (loop fb e s) = SWITCH_NONE"
    and "debounceState (loop fb e s) = DEBOUNCE_STATE_IDLE"
  using assms by (simp_all add: loop_debounce_fields debounce_def Let_def)

lemma loop_debounce_release:
  assumes "debounceState s = DEBOUNCE_STATE_RELEASE"
  shows "switchStatus (loop fb e s) = SWITCH_NONE"
    and "debounceState (loop fb e s) =
           (if readSwitch e = SWITCH_NONE then DEBOUNCE_STATE_IDLE else DEBOUNCE_STATE_RELEASE)"
  using assms by (simp_all add: loop_debounce_fields debounce_def Let_def)

lemma presses_while_checking:
  "debounceState s = DEBOUNCE_STATE_CHECK \<Longrightarrow>
   \<forall>e \<in> set es. readSwitch e = switchMask s
       \<and> ms_debounce e - lastDebounceTime s \<le> DEBOUNCE_PERIOD_MIN \<Longrightarrow>
   presses fb es s = replicate (length es) SWITCH_NONE
   \<and> debounceState (run fb es s) = DEBOUNCE_STATE_CHECK
   \<and> switchMask (run fb es s) = switchMask s
   \<and> lastDebounceTime (run fb es s) = lastDebounceTime s"
proof (induction es arbitrary: s)
  case Nil
  then show ?case by simp
next
  case (Cons x xs)
  have x: "readSwitch x = switchMask s" "ms_debounce x - lastDebounceTime s \<le> DEBOUNCE_PERIOD_MIN"
    using Cons.prems(2) by simp_all
  note st = loop_debounce_check_wait [OF Cons.prems(1) x, of fb]
  have "\<forall>e \<in> set xs. readSwitch e = switchMask (loop fb x s)
       \<and> ms_debounce e - lastDebounceTime (loop fb x s) \<le> DEBOUNCE_PERIOD_MIN"
    using Cons.prems(2) st by simp
  from Cons.IH [OF st(2) this] st show ?case by simp
qed

lemma presses_while_releasing:
  "debounceState s = DEBOUNCE_STATE_RELEASE \<Longrightarrow>
   \<forall>e \<in> set es. readSwitch e \<noteq> SWITCH_NONE \<Longrightarrow>
   presses fb es s = replicate (length es) SWITCH_NONE
   \<and> debounceState (run fb es s) = DEBOUNCE_STATE_RELEASE"
proof (induction es arbitrary: s)
  case Nil
  then show ?case by simp
next
  case (Cons x xs)
  note st = loop_debounce_release [OF Cons.prems(1), of fb x]
  have r: "debounceState (loop fb x s) = DEBOUNCE_STATE_RELEASE"
    using st(2) Cons.prems(2) by simp
  from Cons.IH [OF r] Cons.prems(2) st(1) show ?case by simp
qed

section \<open>The claims\<close>

text \<open>
  Claim C1. Whenever \<open>reflowStatus\<close> is OFF at the point where the SSR block runs, the
  pass ends with the SSR pin low, whatever the state, set point, PID output or window
  position are. The block then does nothing else: the pass returns the state it found with
  only the pin written, so the PID computation and the window shift have not run.
\<close>

theorem ssr_forced_off_while_status_off:
  "reflowStatus (before_ssr_control fb e s) = REFLOW_STATUS_OFF \<Longrightarrow>
   loop fb e s = (before_ssr_control fb e s)\<lparr>ssrPin := False\<rparr>"
  by (simp add: loop_def ssr_control_off)

text \<open>
  The pin was high and the PID output at its maximum; the pass at power-on drives the
  pin low.
\<close>

theorem ssr_forced_off_while_status_off_witness:
  "reflowStatus (before_ssr_control max31856_bits (quiet 5) (power_on\<lparr>ssrPin := True, output_pid := 2000\<rparr>))
     = REFLOW_STATUS_OFF
   \<and> ssrPin (power_on\<lparr>ssrPin := True, output_pid := 2000\<rparr>)
   \<and> \<not> ssrPin (loop max31856_bits (quiet 5) (power_on\<lparr>ssrPin := True, output_pid := 2000\<rparr>))"
proof -
  let ?s = "power_on\<lparr>ssrPin := True, output_pid := 2000\<rparr>"
  have h: "reflowStatus (before_ssr_control max31856_bits (quiet 5) ?s) = REFLOW_STATUS_OFF"
    by (simp add: concrete passes blocks Let_def constants)
  have "ssrPin ?s" by simp
  with h ssr_forced_off_while_status_off [OF h] show ?thesis by simp
qed

text \<open>
  Claim C2. In a pass that samples the thermocouple (\<open>millis() > nextRead\<close>) and reads a
  fault register with one of the listed bits set, whatever the state before: the state
  machine of that pass runs on \<open>reflowState = ERROR\<close> and \<open>reflowStatus = OFF\<close>, and
  the pass ends with the status OFF and the SSR pin low. The state at the end of the pass is
  what the ERROR case makes of its own reading of the register: ERROR when a listed bit is
  still set, IDLE otherwise.
\<close>

theorem sensor_fault_forces_error_and_ssr_off:
  assumes "ms_read e > nextRead s" and "thermocouple_fault fb (tc_fault e)"
  shows "reflowState (before_state_machine fb e s) = REFLOW_STATE_ERROR
       \<and> reflowStatus (before_state_machine fb e s) = REFLOW_STATUS_OFF
       \<and> reflowStatus (loop fb e s) = REFLOW_STATUS_OFF
       \<and> \<not> ssrPin (loop fb e s)
       \<and> reflowState (loop fb e s) =
           (if thermocouple_fault fb (tc_fault_error e) then REFLOW_STATE_ERROR
            else REFLOW_STATE_IDLE)"
proof -
  have pre: "reflowState (before_state_machine fb e s) = REFLOW_STATE_ERROR"
      "reflowStatus (before_state_machine fb e s) = REFLOW_STATUS_OFF"
    using read_thermocouple_fault [OF assms] by (simp_all add: before_state_machine_def)
  with loop_from_error [OF pre] show ?thesis by simp
qed

text \<open>
  A run in the reflow stage with the heater on; the sample reports an open
  thermocouple.
\<close>

theorem sensor_fault_forces_error_and_ssr_off_witness:
  "ms_read (sampled 7 246 0x01 0x01) > nextRead reflowing
   \<and> thermocouple_fault max31856_bits (tc_fault (sampled 7 246 0x01 0x01))
   \<and> reflowState reflowing = REFLOW_STATE_REFLOW \<and> ssrPin reflowing
   \<and> reflowState (loop max31856_bits (sampled 7 246 0x01 0x01) reflowing) = REFLOW_STATE_ERROR
   \<and> reflowStatus (loop max31856_bits (sampled 7 246 0x01 0x01) reflowing) = REFLOW_STATUS_OFF
   \<and> \<not> ssrPin (loop max31856_bits (sampled 7 246 0x01 0x01) reflowing)"
proof -
  have h1: "ms_read (sampled 7 246 0x01 0x01) > nextRead reflowing"
    by (simp add: concrete Let_def)
  have h2: "thermocouple_fault max31856_bits (tc_fault (sampled 7 246 0x01 0x01))"
    by (simp add: concrete)
  have h3: "thermocouple_fault max31856_bits (tc_fault_error (sampled 7 246 0x01 0x01))"
    by (simp add: concrete)
  have "reflowState reflowing = REFLOW_STATE_REFLOW \<and> ssrPin reflowing"
    by (simp add: concrete)
  with h1 h2 h3 sensor_fault_forces_error_and_ssr_off [OF h1 h2] show ?thesis by simp
qed

text \<open>
  Claim C3. From the ERROR state (with the status invariant \<open>status_consistent\<close>, which
  holds after \<open>setup()\<close> and is kept by every pass: lemma
  \<open>status_consistent_reachable\<close>), the state after a pass is decided by the fault
  register as the ERROR case reads it in that pass and by nothing else in the environment:
  ERROR when a listed bit is set, IDLE when none is. Over any sequence of passes whose
  readings all show a fault the state stays ERROR, and the first pass with a fault-free
  reading leaves it IDLE.
\<close>

theorem error_left_only_on_fault_free_reading:
  assumes "status_consistent s" and "reflowState s = REFLOW_STATE_ERROR"
  shows "reflowState (loop fb e s) =
           (if thermocouple_fault fb (tc_fault_error e) then REFLOW_STATE_ERROR
            else REFLOW_STATE_IDLE)
       \<and> ((\<forall>x \<in> set es. thermocouple_fault fb (tc_fault_error x)) \<longrightarrow>
            reflowState (run fb es s) = REFLOW_STATE_ERROR
          \<and> reflowState (run fb (es @ [e]) s) =
              (if thermocouple_fault fb (tc_fault_error e) then REFLOW_STATE_ERROR
               else REFLOW_STATE_IDLE))"
proof -
  have step: "reflowState (loop fb x t) =
           (if thermocouple_fault fb (tc_fault_error x) then REFLOW_STATE_ERROR
            else REFLOW_STATE_IDLE)"
    if "status_consistent t" "reflowState t = REFLOW_STATE_ERROR" for x t
  proof -
    have off: "reflowStatus t = REFLOW_STATUS_OFF"
      using that by (intro off_outside_a_run) simp_all
    have "reflowState (read_thermocouple fb x t) = REFLOW_STATE_ERROR"
      "reflowStatus (read_thermocouple fb x t) = REFLOW_STATUS_OFF"
      using that(2) off by (simp_all add: read_thermocouple_def Let_def)
    then have "reflowState (before_state_machine fb x t) = REFLOW_STATE_ERROR"
      "reflowStatus (before_state_machine fb x t) = REFLOW_STATUS_OFF"
      by (simp_all add: before_state_machine_def)
    then show ?thesis by (rule loop_from_error)
  qed
  have stay: "(\<forall>x \<in> set es. thermocouple_fault fb (tc_fault_error x)) \<Longrightarrow>
      status_consistent t \<Longrightarrow> reflowState t = REFLOW_STATE_ERROR \<Longrightarrow>
      reflowState (run fb es t) = REFLOW_STATE_ERROR" for t
  proof (induction es arbitrary: t)
    case Nil
    then show ?case by simp
  next
    case (Cons x xs)
    have "reflowState (loop fb x t) = REFLOW_STATE_ERROR"
      using step [OF Cons.prems(2,3), of x] Cons.prems(1) by simp
    moreover have "status_consistent (loop fb x t)"
      using Cons.prems(2) by (rule status_consistent_loop)
    ultimately show ?case using Cons.IH Cons.prems(1) by simp
  qed
  show ?thesis
  proof (intro conjI impI)
    show "reflowState (loop fb e s) =
           (if thermocouple_fault fb (tc_fault_error e) then REFLOW_STATE_ERROR
            else REFLOW_STATE_IDLE)"
      using assms by (rule step)
  next
    assume a: "\<forall>x \<in> set es. thermocouple_fault fb (tc_fault_error x)"
    then show r: "reflowState (run fb es s) = REFLOW_STATE_ERROR"
      using assms by (rule stay)
    have "status_consistent (run fb es s)"
      using assms(1) by (rule status_consistent_run)
    from step [OF this r, of e]
    show "reflowState (run fb (es @ [e]) s) =
              (if thermocouple_fault fb (tc_fault_error e) then REFLOW_STATE_ERROR
               else REFLOW_STATE_IDLE)"
      by (simp add: run_append)
  qed
qed

text \<open>
  Two passes, 85 seconds apart and one with the start switch held, both reading a fault,
  leave the state at ERROR; the next pass reads no fault and ends in IDLE.
\<close>

theorem error_left_only_on_fault_free_reading_witness:
  "status_consistent faulted \<and> reflowState faulted = REFLOW_STATE_ERROR
   \<and> thermocouple_fault max31856_bits (tc_fault_error ((start_held 5000)\<lparr>tc_fault_error := 1\<rparr>))
   \<and> thermocouple_fault max31856_bits (tc_fault_error ((quiet 90000)\<lparr>tc_fault_error := 4\<rparr>))
   \<and> \<not> thermocouple_fault max31856_bits (tc_fault_error (quiet 90001))
   \<and> reflowState (run max31856_bits
        [(start_held 5000)\<lparr>tc_fault_error := 1\<rparr>, (quiet 90000)\<lparr>tc_fault_error := 4\<rparr>] faulted)
       = REFLOW_STATE_ERROR
   \<and> reflowState (run max31856_bits
        ([(start_held 5000)\<lparr>tc_fault_error := 1\<rparr>, (quiet 90000)\<lparr>tc_fault_error := 4\<rparr>] @ [quiet 90001])
        faulted) = REFLOW_STATE_IDLE"
proof -
  let ?es = "[(start_held 5000)\<lparr>tc_fault_error := 1\<rparr>, (quiet 90000)\<lparr>tc_fault_error := 4\<rparr>]"
  have h1: "status_consistent faulted"
    by (simp add: status_consistent_def faulted_def concrete Let_def)
  have h2: "reflowState faulted = REFLOW_STATE_ERROR"
    by (simp add: faulted_def)
  have h3: "\<forall>x \<in> set ?es. thermocouple_fault max31856_bits (tc_fault_error x)"
    by (simp add: concrete)
  have h4: "\<not> thermocouple_fault max31856_bits (tc_fault_error (quiet 90001))"
    by (simp add: concrete)
  from error_left_only_on_fault_free_reading [OF h1 h2, of max31856_bits "quiet 90001" ?es]
    h1 h2 h3 h4
  show ?thesis by simp
qed

text \<open>
  Claim C4, as the code has it. \<open>presses\<close> lists the value of \<open>switchStatus\<close> left by
  each pass. The debounce machine is idle and a pass reads a pressed switch; the passes in
  \<open>held\<close> read the same switch no more than 100 ms (by the wrapping \<open>unsigned long\<close>
  difference the code computes) after that first reading. Then no pass so far has produced
  a press, and
  \<^item> if the next pass reads something else, it produces none either and the machine is
    idle again;
  \<^item> if the next pass reads the same switch more than 100 ms after the first reading, it
    produces exactly that switch, no later pass produces anything while the input reads
    something other than NONE, and the pass that reads NONE returns the machine to idle.
\<close>

theorem debounce_one_press_after_period_exceeded:
  assumes "debounceState s = DEBOUNCE_STATE_IDLE"
    and "readSwitch e0 \<noteq> SWITCH_NONE"
    and "\<forall>e \<in> set held. readSwitch e = readSwitch e0
           \<and> ms_debounce e - ms_debounce e0 \<le> DEBOUNCE_PERIOD_MIN"
  shows "(readSwitch e_off \<noteq> readSwitch e0 \<longrightarrow>
            presses fb (e0 # held @ [e_off]) s = replicate (length held + 2) SWITCH_NONE
          \<and> debounceState (run fb (e0 # held @ [e_off]) s) = DEBOUNCE_STATE_IDLE)
       \<and> (readSwitch e1 = readSwitch e0
            \<and> ms_debounce e1 - ms_debounce e0 > DEBOUNCE_PERIOD_MIN
            \<and> (\<forall>e \<in> set kept. readSwitch e \<noteq> SWITCH_NONE)
            \<and> readSwitch e2 = SWITCH_NONE \<longrightarrow>
            presses fb (e0 # held @ [e1] @ kept @ [e2]) s =
              replicate (Suc (length held)) SWITCH_NONE @ [readSwitch e0]
                @ replicate (Suc (length kept)) SWITCH_NONE
          \<and> debounceState (run fb (e0 # held @ [e1] @ kept @ [e2]) s) = DEBOUNCE_STATE_IDLE)"
proof -
  let ?a = "loop fb e0 s"
  let ?b = "run fb held ?a"
  note a = loop_debounce_idle [OF assms(1,2), of fb]
  have "\<forall>e \<in> set held. readSwitch e = switchMask ?a
       \<and> ms_debounce e - lastDebounceTime ?a \<le> DEBOUNCE_PERIOD_MIN"
    using assms(3) a by simp
  from presses_while_checking [OF a(2) this]
  have b: "presses fb held ?a = replicate (length held) SWITCH_NONE"
    "debounceState ?b = DEBOUNCE_STATE_CHECK"
    "switchMask ?b = readSwitch e0"
    "lastDebounceTime ?b = ms_debounce e0"
    using a by simp_all
  show ?thesis
  proof (intro conjI impI)
    assume "readSwitch e_off \<noteq> readSwitch e0"
    then have "readSwitch e_off \<noteq> switchMask ?b" using b(3) by simp
    note c = loop_debounce_check_false_trigger [OF b(2) this, of fb]
    show "presses fb (e0 # held @ [e_off]) s = replicate (length held + 2) SWITCH_NONE"
      using a(1) b(1) c(1) by (simp add: presses_append replicate_append_same)
    show "debounceState (run fb (e0 # held @ [e_off]) s) = DEBOUNCE_STATE_IDLE"
      using c(2) by (simp add: run_append)
  next
    assume h: "readSwitch e1 = readSwitch e0
        \<and> ms_debounce e1 - ms_debounce e0 > DEBOUNCE_PERIOD_MIN
        \<and> (\<forall>e \<in> set kept. readSwitch e \<noteq> SWITCH_NONE)
        \<and> readSwitch e2 = SWITCH_NONE"
    let ?c = "loop fb e1 ?b"
    let ?d = "run fb kept ?c"
    have "readSwitch e1 = switchMask ?b"
      and "ms_debounce e1 - lastDebounceTime ?b > DEBOUNCE_PERIOD_MIN"
      using h b by simp_all
    note c = loop_debounce_check_valid [OF b(2) this, of fb]
    have k: "\<forall>e \<in> set kept. readSwitch e \<noteq> SWITCH_NONE" using h by simp
    note d = presses_while_releasing [OF c(2) k, of fb]
    note f = loop_debounce_release [OF conjunct2 [OF d], of fb e2]
    show "presses fb (e0 # held @ [e1] @ kept @ [e2]) s =
              replicate (Suc (length held)) SWITCH_NONE @ [readSwitch e0]
                @ replicate (Suc (length kept)) SWITCH_NONE"
      using a(1) b(1,3) c(1) d f(1)
      by (simp add: presses_append run_append replicate_append_same)
    show "debounceState (run fb (e0 # held @ [e1] @ kept @ [e2]) s) = DEBOUNCE_STATE_IDLE"
      using f(2) h by (simp add: run_append)
  qed
qed

text \<open>
  The start switch read at 1000, 1040 and 1099 ms and then released: no press. Read again
  at 1101 ms and held until 9000 ms: one press, in the pass at 1101 ms.
\<close>

theorem debounce_one_press_after_period_exceeded_witness:
  "debounceState power_on = DEBOUNCE_STATE_IDLE
   \<and> readSwitch (start_held 1000) \<noteq> SWITCH_NONE
   \<and> readSwitch (start_held 1040) = readSwitch (start_held 1000)
   \<and> ms_debounce (start_held 1040) - ms_debounce (start_held 1000) \<le> DEBOUNCE_PERIOD_MIN
   \<and> readSwitch (start_held 1099) = readSwitch (start_held 1000)
   \<and> ms_debounce (start_held 1099) - ms_debounce (start_held 1000) \<le> DEBOUNCE_PERIOD_MIN
   \<and> ms_debounce (start_held 1101) - ms_debounce (start_held 1000) > DEBOUNCE_PERIOD_MIN
   \<and> presses max31856_bits
       (start_held 1000 # [start_held 1040, start_held 1099] @ [quiet 1099]) power_on
       = [SWITCH_NONE, SWITCH_NONE, SWITCH_NONE, SWITCH_NONE]
   \<and> presses max31856_bits
       (start_held 1000 # [start_held 1040, start_held 1099] @ [start_held 1101]
          @ [start_held 1500, start_held 9000] @ [quiet 9100]) power_on
       = [SWITCH_NONE, SWITCH_NONE, SWITCH_NONE, SWITCH_1, SWITCH_NONE, SWITCH_NONE, SWITCH_NONE]"
proof -
  let ?held = "[start_held 1040, start_held 1099]"
  let ?kept = "[start_held 1500, start_held 9000]"
  have h1: "debounceState power_on = DEBOUNCE_STATE_IDLE"
    by (simp add: concrete Let_def)
  have h2: "readSwitch (start_held 1000) \<noteq> SWITCH_NONE"
    by (simp add: concrete)
  have h3: "\<forall>e \<in> set ?held. readSwitch e = readSwitch (start_held 1000)
        \<and> ms_debounce e - ms_debounce (start_held 1000) \<le> DEBOUNCE_PERIOD_MIN"
    by (simp add: concrete constants)
  have h4: "readSwitch (quiet 1099) \<noteq> readSwitch (start_held 1000)"
    by (simp add: concrete)
  have h5: "readSwitch (start_held 1101) = readSwitch (start_held 1000)
      \<and> ms_debounce (start_held 1101) - ms_debounce (start_held 1000) > DEBOUNCE_PERIOD_MIN
      \<and> (\<forall>e \<in> set ?kept. readSwitch e \<noteq> SWITCH_NONE)
      \<and> readSwitch (quiet 9100) = SWITCH_NONE"
    by (simp add: concrete constants)
  have v: "readSwitch (start_held 1000) = SWITCH_1"
    by (simp add: concrete)
  from debounce_one_press_after_period_exceeded [OF h1 h2 h3, of "quiet 1099" max31856_bits
      "start_held 1101" ?kept "quiet 9100"] h1 h2 h3 h4 h5 v
  show ?thesis by (simp add: numeral_eq_Suc)
qed

text \<open>
  Claim C4 as stated fails at exactly 100 ms. The start switch is read pressed at 1000 ms
  and again at 1100 ms, so it has been asserted for at least 100 ms, and is released after
  that. The code's comparison is strict (\<open>> DEBOUNCE_PERIOD_MIN\<close>), and no pass produces
  a press.
\<close>

theorem debounce_exactly_100_ms_counterexample:
  "ms_debounce (start_held 1100) - ms_debounce (start_held 1000) = 100
   \<and> readSwitch (start_held 1000) = SWITCH_1 \<and> readSwitch (start_held 1100) = SWITCH_1
   \<and> readSwitch (quiet 1101) = SWITCH_NONE
   \<and> presses max31856_bits [start_held 1000, start_held 1100, quiet 1101] power_on
       = [SWITCH_NONE, SWITCH_NONE, SWITCH_NONE]"
  by (simp add: concrete loop_debounce_fields debounce_def Let_def constants)

text \<open>
  Claim C5. In a pass that starts with the validated press SWITCH_1 and in which
  \<open>reflowStatus\<close> is ON after the state machine has run, the pass ends with the status
  OFF, the state IDLE and the SSR pin low, whatever the state machine decided in that
  pass.
\<close>

theorem start_press_cancels_running_process:
  assumes "switchStatus s = SWITCH_1"
    and "reflowStatus (before_switch_action fb e s) = REFLOW_STATUS_ON"
  shows "reflowState (loop fb e s) = REFLOW_STATE_IDLE
       \<and> reflowStatus (loop fb e s) = REFLOW_STATUS_OFF
       \<and> \<not> ssrPin (loop fb e s)"
proof -
  have "switchStatus (before_switch_action fb e s) = SWITCH_1"
    using assms(1) by (simp add: before_switch_action_def)
  from switch_action_cancel [OF this assms(2)]
  have c: "reflowState (loop fb e s) = REFLOW_STATE_IDLE"
    "reflowStatus (loop fb e s) = REFLOW_STATUS_OFF"
    by (simp_all add: loop_state_status)
  then have "reflowStatus (before_ssr_control fb e s) = REFLOW_STATUS_OFF"
    by (simp add: loop_def)
  then have "\<not> ssrPin (loop fb e s)"
    by (simp add: loop_def ssr_control_off)
  with c show ?thesis by simp
qed

text \<open>
  At 246 degrees the state machine of this pass moves REFLOW to COOL; the press still
  ends the pass in IDLE.
\<close>

theorem start_press_cancels_running_process_witness:
  "switchStatus (reflowing\<lparr>switchStatus := SWITCH_1\<rparr>) = SWITCH_1
   \<and> reflowStatus (before_switch_action max31856_bits (quiet 5) (reflowing\<lparr>switchStatus := SWITCH_1\<rparr>))
       = REFLOW_STATUS_ON
   \<and> reflowState (before_switch_action max31856_bits (quiet 5) (reflowing\<lparr>switchStatus := SWITCH_1\<rparr>))
       = REFLOW_STATE_COOL
   \<and> reflowState (loop max31856_bits (quiet 5) (reflowing\<lparr>switchStatus := SWITCH_1\<rparr>)) = REFLOW_STATE_IDLE
   \<and> reflowStatus (loop max31856_bits (quiet 5) (reflowing\<lparr>switchStatus := SWITCH_1\<rparr>)) = REFLOW_STATUS_OFF"
proof -
  let ?s = "reflowing\<lparr>switchStatus := SWITCH_1\<rparr>"
  have h1: "switchStatus ?s = SWITCH_1" by simp
  have h2: "reflowStatus (before_switch_action max31856_bits (quiet 5) ?s) = REFLOW_STATUS_ON"
    by (simp add: concrete passes blocks Let_def constants)
  have h3: "reflowState (before_switch_action max31856_bits (quiet 5) ?s) = REFLOW_STATE_COOL"
    by (simp add: concrete passes blocks Let_def constants)
  from start_press_cancels_running_process [OF h1 h2] h1 h2 h3 show ?thesis by simp
qed

text \<open>
  Claim C6, as the code has it. While the process is ON, the relay window start moves
  only by adding \<open>windowSize\<close> to its previous value, and does so exactly when the time
  since the window start exceeds \<open>windowSize\<close>. The soak deadline is re-armed from the
  clock: when the soak timer has expired, the new deadline is the value of \<open>millis()\<close>
  read at the re-arm plus \<open>soakMicroPeriod\<close>.
\<close>

theorem window_rearms_from_deadline_soak_from_clock:
  "(reflowStatus (before_ssr_control fb e s) = REFLOW_STATUS_ON \<longrightarrow>
      windowStartTime (loop fb e s) =
        (if ms_now e - windowStartTime (before_ssr_control fb e s)
              > ucast (windowSize (before_ssr_control fb e s))
         then windowStartTime (before_ssr_control fb e s)
                + ucast (windowSize (before_ssr_control fb e s))
         else windowStartTime (before_ssr_control fb e s)))
 \<and> (reflowState (before_state_machine fb e s) = REFLOW_STATE_SOAK \<and> ms_state e > timerSoak s \<longrightarrow>
      timerSoak (loop fb e s) = ms_soak e + soakMicroPeriod s)"
proof (intro conjI impI)
  assume "reflowStatus (before_ssr_control fb e s) = REFLOW_STATUS_ON"
  then show "windowStartTime (loop fb e s) =
        (if ms_now e - windowStartTime (before_ssr_control fb e s)
              > ucast (windowSize (before_ssr_control fb e s))
         then windowStartTime (before_ssr_control fb e s)
                + ucast (windowSize (before_ssr_control fb e s))
         else windowStartTime (before_ssr_control fb e s))"
    unfolding loop_def by (rule ssr_control_window)
next
  assume a: "reflowState (before_state_machine fb e s) = REFLOW_STATE_SOAK \<and> ms_state e > timerSoak s"
  then have "timerSoak (state_machine fb e (before_state_machine fb e s)) =
      ms_soak e + soakMicroPeriod s"
    by (simp add: state_machine_def Let_def)
  then show "timerSoak (loop fb e s) = ms_soak e + soakMicroPeriod s"
    by (simp add: after_state_machine_frame before_switch_action_def)
qed

text \<open>
  A pass at 2500 ms in the soak stage: the window start moves from 0 to 2000, the soak
  deadline from 1000 to 2500 + 9000.
\<close>

theorem window_rearms_from_deadline_soak_from_clock_witness:
  "reflowStatus (before_ssr_control max31856_bits (quiet 2500) soaking) = REFLOW_STATUS_ON
   \<and> windowStartTime soaking = 0
   \<and> windowStartTime (loop max31856_bits (quiet 2500) soaking) = 2000
   \<and> reflowState (before_state_machine max31856_bits (quiet 2500) soaking) = REFLOW_STATE_SOAK
   \<and> ms_state (quiet 2500) > timerSoak soaking
   \<and> timerSoak (loop max31856_bits (quiet 2500) soaking) = 11500"
proof -
  have h1: "reflowStatus (before_ssr_control max31856_bits (quiet 2500) soaking) = REFLOW_STATUS_ON"
    by (simp add: concrete passes blocks Let_def constants)
  have h2: "reflowState (before_state_machine max31856_bits (quiet 2500) soaking) = REFLOW_STATE_SOAK"
    by (simp add: concrete passes blocks Let_def constants)
  have h3: "ms_state (quiet 2500) > timerSoak soaking"
    by (simp add: concrete)
  have v: "windowStartTime (before_ssr_control max31856_bits (quiet 2500) soaking) = 0"
    "windowSize (before_ssr_control max31856_bits (quiet 2500) soaking) = 2000"
    "windowStartTime soaking = 0" "ms_now (quiet 2500) = 2500" "ms_soak (quiet 2500) = 2500"
    "soakMicroPeriod soaking = 9000"
    by (simp_all add: concrete passes blocks Let_def constants)
  from window_rearms_from_deadline_soak_from_clock [of max31856_bits "quiet 2500" soaking]
    h1 h2 h3 v
  show ?thesis by simp
qed

text \<open>
  Claim C6 as stated fails for the soak deadline. It was 1000 with a period of 9000; the
  pass at 1500 ms finds it expired and sets it to 1500 + 9000 = 10500, not to
  1000 + 9000 = 10000.
\<close>

theorem soak_deadline_counterexample:
  "reflowState soaking = REFLOW_STATE_SOAK
   \<and> ms_state (quiet 1500) > timerSoak soaking
   \<and> timerSoak soaking + soakMicroPeriod soaking = 10000
   \<and> timerSoak (loop max31856_bits (quiet 1500) soaking) = 10500"
  by (simp add: concrete passes blocks Let_def constants)

text \<open>
  Claim C7. When the state machine runs in the SOAK state:
  \<^item> if the soak timer has not expired, the state machine changes nothing and the pass
    leaves the set point as it was;
  \<^item> if it has expired and the set point plus 5 does not exceed \<open>soakTemperatureMax\<close>,
    the pass leaves the set point raised by 5, the state machine stays in SOAK and the PID
    gains are untouched;
  \<^item> if it has expired and the set point plus 5 exceeds \<open>soakTemperatureMax\<close>, the pass
    leaves the set point at \<open>reflowTemperatureMax\<close>, the state machine moves to REFLOW
    and the PID gains are the reflow set.
  The set point is a real number here; the values it takes in a run (150 to 255) are
  integers that the \<open>double\<close> of the target holds exactly.
\<close>

theorem soak_steps_setpoint_then_jumps_to_reflow_max:
  assumes "reflowState (before_state_machine fb e s) = REFLOW_STATE_SOAK"
  shows "(\<not> ms_state e > timerSoak s \<longrightarrow>
            before_switch_action fb e s = before_state_machine fb e s
          \<and> setpoint (loop fb e s) = setpoint s)
       \<and> (ms_state e > timerSoak s
            \<and> \<not> setpoint s + real_of_int SOAK_TEMPERATURE_STEP > real (unat (soakTemperatureMax s)) \<longrightarrow>
            setpoint (loop fb e s) = setpoint s + 5
          \<and> reflowState (before_switch_action fb e s) = REFLOW_STATE_SOAK
          \<and> pidTunings (loop fb e s) = pidTunings s)
       \<and> (ms_state e > timerSoak s
            \<and> setpoint s + real_of_int SOAK_TEMPERATURE_STEP > real (unat (soakTemperatureMax s)) \<longrightarrow>
            setpoint (loop fb e s) = real (unat (reflowTemperatureMax s))
          \<and> reflowState (before_switch_action fb e s) = REFLOW_STATE_REFLOW
          \<and> pidTunings (loop fb e s) = PID_REFLOW)"
proof -
  let ?p = "before_state_machine fb e s"
  note sm = state_machine_soak [OF assms, of e fb, simplified]
  show ?thesis
  proof (intro conjI impI)
    assume a: "\<not> ms_state e > timerSoak s"
    then show "before_switch_action fb e s = ?p"
      using sm(1) by (simp add: before_switch_action_def)
    then show "setpoint (loop fb e s) = setpoint s"
      by (simp add: after_state_machine_frame)
  next
    assume a: "ms_state e > timerSoak s
        \<and> \<not> setpoint s + real_of_int SOAK_TEMPERATURE_STEP > real (unat (soakTemperatureMax s))"
    then have m: "before_switch_action fb e s =
        ?p\<lparr>timerSoak := ms_soak e + soakMicroPeriod s,
           setpoint := setpoint s + real_of_int SOAK_TEMPERATURE_STEP\<rparr>"
      using sm(2) by (simp add: before_switch_action_def)
    show "setpoint (loop fb e s) = setpoint s + 5"
      and "reflowState (before_switch_action fb e s) = REFLOW_STATE_SOAK"
      and "pidTunings (loop fb e s) = pidTunings s"
      using assms by (simp_all add: after_state_machine_frame m SOAK_TEMPERATURE_STEP_def)
  next
    assume a: "ms_state e > timerSoak s
        \<and> setpoint s + real_of_int SOAK_TEMPERATURE_STEP > real (unat (soakTemperatureMax s))"
    then have m: "before_switch_action fb e s =
        ?p\<lparr>timerSoak := ms_soak e + soakMicroPeriod s,
           pidTunings := PID_REFLOW,
           setpoint := real (unat (reflowTemperatureMax s)),
           reflowState := REFLOW_STATE_REFLOW\<rparr>"
      using sm(3) by (simp add: before_switch_action_def)
    show "setpoint (loop fb e s) = real (unat (reflowTemperatureMax s))"
      and "reflowState (before_switch_action fb e s) = REFLOW_STATE_REFLOW"
      and "pidTunings (loop fb e s) = PID_REFLOW"
      by (simp_all add: after_state_machine_frame m)
  qed
qed

text \<open>
  Lead-free soak: from 155 the expiry at 1500 ms gives 160; from 200 it gives 250 and
  REFLOW; the pass at 900 ms, before the deadline, leaves 155.
\<close>

theorem soak_steps_setpoint_then_jumps_to_reflow_max_witness:
  "reflowState (before_state_machine max31856_bits (quiet 1500) soaking) = REFLOW_STATE_SOAK
   \<and> ms_state (quiet 1500) > timerSoak soaking
   \<and> setpoint soaking = 155
   \<and> setpoint (loop max31856_bits (quiet 1500) soaking) = 160
   \<and> reflowState (before_state_machine max31856_bits (quiet 1500) (soaking\<lparr>setpoint := 200\<rparr>))
       = REFLOW_STATE_SOAK
   \<and> setpoint (loop max31856_bits (quiet 1500) (soaking\<lparr>setpoint := 200\<rparr>)) = 250
   \<and> reflowState (before_switch_action max31856_bits (quiet 1500) (soaking\<lparr>setpoint := 200\<rparr>))
       = REFLOW_STATE_REFLOW
   \<and> \<not> ms_state (quiet 900) > timerSoak soaking
   \<and> setpoint (loop max31856_bits (quiet 900) soaking) = 155"
proof -
  let ?t = "soaking\<lparr>setpoint := 200\<rparr>"
  have h1: "reflowState (before_state_machine max31856_bits e soaking) = REFLOW_STATE_SOAK"
    if "ms_read e = 0" for e
    using that by (simp add: concrete passes blocks Let_def constants)
  have h2: "reflowState (before_state_machine max31856_bits (quiet 1500) ?t) = REFLOW_STATE_SOAK"
    by (simp add: concrete passes blocks Let_def constants)
  have q: "ms_read (quiet 1500) = 0" "ms_read (quiet 900) = 0"
    by (simp_all add: quiet_def)
  have v: "ms_state (quiet 1500) > timerSoak soaking" "\<not> ms_state (quiet 900) > timerSoak soaking"
    "ms_state (quiet 1500) > timerSoak ?t"
    "setpoint soaking = 155" "soakTemperatureMax soaking = 200" "reflowTemperatureMax soaking = 250"
    by (simp_all add: concrete constants)
  from soak_steps_setpoint_then_jumps_to_reflow_max [OF h1 [OF q(1)]]
    soak_steps_setpoint_then_jumps_to_reflow_max [OF h1 [OF q(2)]]
    soak_steps_setpoint_then_jumps_to_reflow_max [OF h2]
    h1 [OF q(1)] h2 v
  show ?thesis by (simp add: SOAK_TEMPERATURE_STEP_def)
qed

text \<open>
  Claim C8. In a pass that starts with the validated press SWITCH_2: if the state is
  IDLE when the switch block runs (that is, after the state machine of that pass), the
  profile advances one step in the order LEADFREE, LEADED, BAKE, LEADFREE and its byte is
  written to the EEPROM at \<open>PROFILE_TYPE_ADDRESS\<close> in the same pass; if the state is not
  IDLE there, profile and EEPROM are unchanged. The press does not change the state, and
  three steps of the cycle return to the starting profile.
\<close>

theorem select_press_cycles_profile_only_in_idle:
  assumes "switchStatus s = SWITCH_2"
  shows "(reflowState (before_switch_action fb e s) = REFLOW_STATE_IDLE \<longrightarrow>
            reflowProfile (loop fb e s) = next_profile (reflowProfile s)
          \<and> eeprom (loop fb e s) =
              (eeprom s)(PROFILE_TYPE_ADDRESS := profile_byte (next_profile (reflowProfile s)))
          \<and> eeprom (loop fb e s) PROFILE_TYPE_ADDRESS = profile_byte (reflowProfile (loop fb e s)))
       \<and> (reflowState (before_switch_action fb e s) \<noteq> REFLOW_STATE_IDLE \<longrightarrow>
            reflowProfile (loop fb e s) = reflowProfile s \<and> eeprom (loop fb e s) = eeprom s)
       \<and> reflowState (loop fb e s) = reflowState (before_switch_action fb e s)
       \<and> next_profile (next_profile (next_profile (reflowProfile s))) = reflowProfile s"
proof -
  let ?m = "before_switch_action fb e s"
  have sw: "switchStatus ?m = SWITCH_2"
    using assms by (simp add: before_switch_action_def)
  have keep: "reflowProfile ?m = reflowProfile s" "eeprom ?m = eeprom s"
    by (simp_all add: before_switch_action_def)
  have three: "next_profile (next_profile (next_profile (reflowProfile s))) = reflowProfile s"
    by (cases "reflowProfile s") simp_all
  show ?thesis
    using switch_action_select [OF sw] keep three
    by (auto simp add: loop_profile loop_state_status)
qed

text \<open>
  At power-on (lead-free, IDLE) the press selects the leaded profile and stores 1; during
  reflow the press changes neither the profile nor the stored byte.
\<close>

theorem select_press_cycles_profile_only_in_idle_witness:
  "switchStatus (power_on\<lparr>switchStatus := SWITCH_2, input := 25\<rparr>) = SWITCH_2
   \<and> reflowProfile (run max31856_bits [quiet 1]
        (power_on\<lparr>switchStatus := SWITCH_2, input := 25\<rparr>)) = REFLOW_PROFILE_LEADED
   \<and> eeprom (run max31856_bits [quiet 1]
        (power_on\<lparr>switchStatus := SWITCH_2, input := 25\<rparr>)) 0 = 1
   \<and> switchStatus (reflowing\<lparr>switchStatus := SWITCH_2\<rparr>) = SWITCH_2
   \<and> reflowProfile (loop max31856_bits (quiet 1) (reflowing\<lparr>switchStatus := SWITCH_2\<rparr>))
       = REFLOW_PROFILE_LEADFREE
   \<and> eeprom (loop max31856_bits (quiet 1) (reflowing\<lparr>switchStatus := SWITCH_2\<rparr>)) 0 = 0"
proof -
  let ?s = "power_on\<lparr>switchStatus := SWITCH_2, input := 25\<rparr>"
  let ?r = "reflowing\<lparr>switchStatus := SWITCH_2\<rparr>"
  have h1: "switchStatus ?s = SWITCH_2" by simp
  have h2: "reflowState (before_switch_action max31856_bits (quiet 1) ?s) = REFLOW_STATE_IDLE"
    by (simp add: concrete passes blocks Let_def constants)
  have p1: "reflowProfile ?s = REFLOW_PROFILE_LEADFREE"
    by (simp add: concrete profile_of_byte_def Let_def constants)
  have h3: "switchStatus ?r = SWITCH_2" by simp
  have h4: "reflowState (before_switch_action max31856_bits (quiet 1) ?r) \<noteq> REFLOW_STATE_IDLE"
    by (simp add: concrete passes blocks Let_def constants)
  have p2: "reflowProfile ?r = REFLOW_PROFILE_LEADFREE" "eeprom ?r 0 = 0"
    by (simp_all add: concrete profile_of_byte_def Let_def constants)
  from select_press_cycles_profile_only_in_idle [OF h1, of max31856_bits "quiet 1"]
    select_press_cycles_profile_only_in_idle [OF h3, of max31856_bits "quiet 1"]
    h1 h2 h3 h4 p1 p2
  show ?thesis by (simp add: PROFILE_TYPE_ADDRESS_def)
qed

text \<open>
  Claim C9. The IDLE case tests the temperature first: with \<open>input\<close> at or above
  \<open>TEMPERATURE_ROOM\<close> the state machine only sets the state to TOO_HOT, whatever
  \<open>switchStatus\<close> is, and (for a state that satisfies the status invariant) the pass ends
  in TOO_HOT with the status OFF. The TOO_HOT case returns to IDLE exactly when \<open>input\<close>
  is below the threshold and changes nothing otherwise. And a pass that enters PREHEAT or
  BAKE from another state started in IDLE with \<open>input\<close>, as the state machine saw it,
  not at or above the threshold. The thermocouple reading is taken to be a number.
\<close>

theorem too_hot_has_priority_over_start:
  "(reflowState s = REFLOW_STATE_IDLE \<and> input s \<ge> real_of_int TEMPERATURE_ROOM \<longrightarrow>
      state_machine fb e s = s\<lparr>reflowState := REFLOW_STATE_TOO_HOT\<rparr>)
 \<and> (reflowState s = REFLOW_STATE_TOO_HOT \<longrightarrow>
      state_machine fb e s =
        (if input s < real_of_int TEMPERATURE_ROOM then s\<lparr>reflowState := REFLOW_STATE_IDLE\<rparr>
         else s))
 \<and> (status_consistent s \<and> reflowState (before_state_machine fb e s) = REFLOW_STATE_IDLE
      \<and> input (before_state_machine fb e s) \<ge> real_of_int TEMPERATURE_ROOM \<longrightarrow>
      reflowState (loop fb e s) = REFLOW_STATE_TOO_HOT
      \<and> reflowStatus (loop fb e s) = REFLOW_STATUS_OFF)
 \<and> (reflowState (loop fb e s) \<in> {REFLOW_STATE_PREHEAT, REFLOW_STATE_BAKE}
      \<and> reflowState (loop fb e s) \<noteq> reflowState s \<longrightarrow>
      reflowState s = REFLOW_STATE_IDLE
      \<and> \<not> input (loop fb e s) \<ge> real_of_int TEMPERATURE_ROOM)"
proof (intro conjI impI)
  assume "reflowState s = REFLOW_STATE_IDLE \<and> input s \<ge> real_of_int TEMPERATURE_ROOM"
  then show "state_machine fb e s = s\<lparr>reflowState := REFLOW_STATE_TOO_HOT\<rparr>"
    by (simp add: state_machine_idle_hot)
next
  assume "reflowState s = REFLOW_STATE_TOO_HOT"
  then show "state_machine fb e s =
        (if input s < real_of_int TEMPERATURE_ROOM then s\<lparr>reflowState := REFLOW_STATE_IDLE\<rparr>
         else s)"
    by (rule state_machine_too_hot)
next
  assume a: "status_consistent s \<and> reflowState (before_state_machine fb e s) = REFLOW_STATE_IDLE
      \<and> input (before_state_machine fb e s) \<ge> real_of_int TEMPERATURE_ROOM"
  let ?p = "before_state_machine fb e s"
  have "status_consistent ?p"
    using a by (intro status_consistent_before_state_machine) simp
  then have off: "reflowStatus ?p = REFLOW_STATUS_OFF"
    using a by (intro off_outside_a_run) simp_all
  have m: "before_switch_action fb e s = ?p\<lparr>reflowState := REFLOW_STATE_TOO_HOT\<rparr>"
    using a by (simp add: before_switch_action_def state_machine_idle_hot)
  have "reflowStatus (before_switch_action fb e s) = REFLOW_STATUS_OFF"
    by (simp add: m off)
  from switch_action_off [OF this]
  show "reflowState (loop fb e s) = REFLOW_STATE_TOO_HOT"
    and "reflowStatus (loop fb e s) = REFLOW_STATUS_OFF"
    by (simp_all add: loop_state_status m)
next
  assume b: "reflowState (loop fb e s) \<in> {REFLOW_STATE_PREHEAT, REFLOW_STATE_BAKE}
      \<and> reflowState (loop fb e s) \<noteq> reflowState s"
  let ?p = "before_state_machine fb e s"
  let ?m = "before_switch_action fb e s"
  have pre: "reflowState ?p = reflowState s \<or> reflowState ?p = REFLOW_STATE_ERROR"
    using read_thermocouple_state [of fb e s] by (simp add: before_state_machine_def)
  have m: "reflowState ?m = reflowState (loop fb e s)"
    using switch_action_state [of ?m] b by (auto simp add: loop_state_status)
  have ne: "reflowState ?m \<noteq> reflowState ?p"
  proof
    assume eq: "reflowState ?m = reflowState ?p"
    with m b pre show False by auto
  qed
  from state_machine_begins_run [of fb e ?p] m b ne
  have r: "reflowState ?p = REFLOW_STATE_IDLE \<and> input ?p < real_of_int TEMPERATURE_ROOM"
    by (simp add: before_switch_action_def)
  with pre show "reflowState s = REFLOW_STATE_IDLE" by auto
  from r show "\<not> input (loop fb e s) \<ge> real_of_int TEMPERATURE_ROOM"
    by (simp add: loop_input)
qed

text \<open>
  With the start press pending at power-on, a sample of 50 degrees ends the pass in
  TOO_HOT; a sample of 25 degrees starts the run.
\<close>

theorem too_hot_has_priority_over_start_witness:
  "status_consistent (power_on\<lparr>switchStatus := SWITCH_1\<rparr>)
   \<and> reflowState (before_state_machine max31856_bits (sampled 1 50 0 0)
         (power_on\<lparr>switchStatus := SWITCH_1\<rparr>)) = REFLOW_STATE_IDLE
   \<and> input (before_state_machine max31856_bits (sampled 1 50 0 0)
         (power_on\<lparr>switchStatus := SWITCH_1\<rparr>)) \<ge> real_of_int TEMPERATURE_ROOM
   \<and> reflowState (loop max31856_bits (sampled 1 50 0 0) (power_on\<lparr>switchStatus := SWITCH_1\<rparr>))
       = REFLOW_STATE_TOO_HOT
   \<and> reflowState (loop max31856_bits (sampled 1 25 0 0) (power_on\<lparr>switchStatus := SWITCH_1\<rparr>))
       \<in> {REFLOW_STATE_PREHEAT, REFLOW_STATE_BAKE}
   \<and> reflowState (loop max31856_bits (sampled 1 25 0 0) (power_on\<lparr>switchStatus := SWITCH_1\<rparr>))
       \<noteq> reflowState (power_on\<lparr>switchStatus := SWITCH_1\<rparr>)
   \<and> input (loop max31856_bits (sampled 1 25 0 0) (power_on\<lparr>switchStatus := SWITCH_1\<rparr>)) < 50"
proof -
  let ?s = "power_on\<lparr>switchStatus := SWITCH_1\<rparr>"
  have h1: "status_consistent ?s"
    by (simp add: status_consistent_def concrete Let_def)
  have h2: "reflowState (before_state_machine max31856_bits (sampled 1 50 0 0) ?s) = REFLOW_STATE_IDLE"
    by (simp add: concrete passes blocks Let_def constants)
  have h3: "input (before_state_machine max31856_bits (sampled 1 50 0 0) ?s)
      \<ge> real_of_int TEMPERATURE_ROOM"
    by (simp add: concrete passes blocks Let_def constants)
  have h4: "reflowState (loop max31856_bits (sampled 1 25 0 0) ?s)
       \<in> {REFLOW_STATE_PREHEAT, REFLOW_STATE_BAKE}"
    by (simp add: concrete passes blocks Let_def constants profile_of_byte_def)
  have h5: "reflowState (loop max31856_bits (sampled 1 25 0 0) ?s) \<noteq> reflowState ?s"
    by (simp add: concrete passes blocks Let_def constants profile_of_byte_def)
  from too_hot_has_priority_over_start [of ?s max31856_bits "sampled 1 50 0 0"]
    too_hot_has_priority_over_start [of ?s max31856_bits "sampled 1 25 0 0"]
    h1 h2 h3 h4 h5
  show ?thesis by (simp add: TEMPERATURE_ROOM_def)
qed

text \<open>
  Claim C10. When the state machine runs in IDLE, below the room threshold, with the
  validated press SWITCH_1 (in a state that satisfies the status invariant), the pass ends
  in BAKE for the bake profile and in PREHEAT otherwise, \<open>reflowStatus\<close> is OFF when the
  switch block runs and at the end of the pass, and the SSR pin is low. The state machine
  of a following pass then sets the status to ON; and the state machine sets an OFF status to
  ON in the PREHEAT and BAKE cases only.
\<close>

theorem starting_press_cannot_cancel_its_own_run:
  assumes "status_consistent s"
    and "reflowState (before_state_machine fb e s) = REFLOW_STATE_IDLE"
    and "input (before_state_machine fb e s) < real_of_int TEMPERATURE_ROOM"
    and "switchStatus s = SWITCH_1"
  shows "reflowState (loop fb e s) =
           (if reflowProfile s = REFLOW_PROFILE_BAKE then REFLOW_STATE_BAKE
            else REFLOW_STATE_PREHEAT)
       \<and> reflowStatus (before_switch_action fb e s) = REFLOW_STATUS_OFF
       \<and> reflowStatus (loop fb e s) = REFLOW_STATUS_OFF
       \<and> \<not> ssrPin (loop fb e s)
       \<and> reflowStatus (state_machine fb e' (loop fb e s)) = REFLOW_STATUS_ON
       \<and> (reflowStatus t = REFLOW_STATUS_OFF
            \<and> reflowStatus (state_machine fb e' t) = REFLOW_STATUS_ON \<longrightarrow>
            reflowState t \<in> {REFLOW_STATE_PREHEAT, REFLOW_STATE_BAKE})"
proof -
  have only: "reflowStatus t = REFLOW_STATUS_OFF
        \<and> reflowStatus (state_machine fb e' t) = REFLOW_STATUS_ON \<longrightarrow>
      reflowState t \<in> {REFLOW_STATE_PREHEAT, REFLOW_STATE_BAKE}"
    using state_machine_turns_on_only_there [of fb e' t] by blast
  let ?p = "before_state_machine fb e s"
  have "status_consistent ?p"
    using assms(1) by (rule status_consistent_before_state_machine)
  then have off: "reflowStatus ?p = REFLOW_STATUS_OFF"
    using assms(2) by (intro off_outside_a_run) simp_all
  have sw: "switchStatus ?p = SWITCH_1" using assms(4) by simp
  from state_machine_start [OF assms(2) sw assms(3), of fb e] off
  have m: "reflowState (before_switch_action fb e s) =
           (if reflowProfile s = REFLOW_PROFILE_BAKE then REFLOW_STATE_BAKE
            else REFLOW_STATE_PREHEAT)"
    "reflowStatus (before_switch_action fb e s) = REFLOW_STATUS_OFF"
    by (simp_all add: before_switch_action_def)
  from switch_action_off [OF m(2)] m(1)
  have l: "reflowState (loop fb e s) =
           (if reflowProfile s = REFLOW_PROFILE_BAKE then REFLOW_STATE_BAKE
            else REFLOW_STATE_PREHEAT)"
    "reflowStatus (loop fb e s) = REFLOW_STATUS_OFF"
    by (simp_all add: loop_state_status)
  then have "reflowStatus (before_ssr_control fb e s) = REFLOW_STATUS_OFF"
    by (simp add: loop_def)
  then have pin: "\<not> ssrPin (loop fb e s)"
    by (simp add: loop_def ssr_control_off)
  have "reflowStatus (state_machine fb e' (loop fb e s)) = REFLOW_STATUS_ON"
    by (rule state_machine_turns_on) (simp add: l(1))
  with m(2) l pin only show ?thesis by simp
qed

text \<open>
  The start press at power-on, 25 degrees, lead-free profile: the pass ends in PREHEAT
  with the status OFF and the SSR pin low.
\<close>

theorem starting_press_cannot_cancel_its_own_run_witness:
  "status_consistent (power_on\<lparr>switchStatus := SWITCH_1, input := 25\<rparr>)
   \<and> reflowState (before_state_machine max31856_bits (start_held 300)
        (power_on\<lparr>switchStatus := SWITCH_1, input := 25\<rparr>)) = REFLOW_STATE_IDLE
   \<and> input (before_state_machine max31856_bits (start_held 300)
        (power_on\<lparr>switchStatus := SWITCH_1, input := 25\<rparr>)) < real_of_int TEMPERATURE_ROOM
   \<and> switchStatus (power_on\<lparr>switchStatus := SWITCH_1, input := 25\<rparr>) = SWITCH_1
   \<and> reflowState (loop max31856_bits (start_held 300)
        (power_on\<lparr>switchStatus := SWITCH_1, input := 25\<rparr>)) = REFLOW_STATE_PREHEAT
   \<and> reflowStatus (loop max31856_bits (start_held 300)
        (power_on\<lparr>switchStatus := SWITCH_1, input := 25\<rparr>)) = REFLOW_STATUS_OFF
   \<and> \<not> ssrPin (loop max31856_bits (start_held 300)
        (power_on\<lparr>switchStatus := SWITCH_1, input := 25\<rparr>))"
proof -
  let ?s = "power_on\<lparr>switchStatus := SWITCH_1, input := 25\<rparr>"
  have h1: "status_consistent ?s"
    by (simp add: status_consistent_def concrete Let_def)
  have h2: "reflowState (before_state_machine max31856_bits (start_held 300) ?s) = REFLOW_STATE_IDLE"
    by (simp add: concrete passes blocks Let_def constants)
  have h3: "input (before_state_machine max31856_bits (start_held 300) ?s) < real_of_int TEMPERATURE_ROOM"
    by (simp add: concrete passes blocks Let_def constants)
  have h4: "switchStatus ?s = SWITCH_1" by simp
  have p: "reflowProfile ?s = REFLOW_PROFILE_LEADFREE"
    by (simp add: concrete profile_of_byte_def Let_def constants)
  from starting_press_cannot_cancel_its_own_run [OF h1 h2 h3 h4] h1 h2 h3 h4 p
  show ?thesis by simp
qed

end
